theory Spec2Isabelle
  imports
    Complex_Main
    "HOL-Library.Char_ord"
    "HOL-Library.List_Lexorder"
    "HOL-Library.Monad_Syntax"
begin

section \<open>Python values\<close>

text \<open>
  The payloads handled by \<^verbatim>\<open>stream_compare.py\<close> are decoded JSON: \<^verbatim>\<open>None\<close>, booleans,
  integers, strings, lists and dicts with string keys. A dict is an association list whose
  first binding of a key is the value of that key. Strings are lists of characters, one
  \<^typ>\<open>char\<close> per code point (so code points are limited to 0..255), ordered by code
  point as Python orders them. Floating-point numbers are not modelled.
\<close>

datatype pyval =
    PNone
  | PBool bool
  | PInt int
  | PStr string
  | PList "pyval list"
  | PDict "(string \<times> pyval) list"

text \<open>The exceptions that the program can meet.\<close>

datatype exn =
    AttributeError
  | TypeError
  | UnboundLocalError
  | ZeroDivisionError
  | ChunkedEncodingError
  | ConnectionError
  | ProtocolError
  | OtherException

text \<open>
  Two builtins of Python are outside the repository and are taken as parameters: the text
  that \<^verbatim>\<open>str()\<close> gives a list or a dict, and \<^verbatim>\<open><\<close> between two lists (which may raise).
  Everything below holds for every choice of them.
\<close>

record builtins =
  repr :: "pyval \<Rightarrow> string"
  list_lt :: "pyval list \<Rightarrow> pyval list \<Rightarrow> exn + bool"

text \<open>Truth value of a Python object, as \<^verbatim>\<open>if x\<close>, \<^verbatim>\<open>not x\<close> and \<^verbatim>\<open>x or y\<close> test it.\<close>

fun py_truthy :: "pyval \<Rightarrow> bool" where
  "py_truthy PNone = False"
| "py_truthy (PBool b) = b"
| "py_truthy (PInt i) = (i \<noteq> 0)"
| "py_truthy (PStr s) = (s \<noteq> [])"
| "py_truthy (PList xs) = (xs \<noteq> [])"
| "py_truthy (PDict kvs) = (kvs \<noteq> [])"

definition py_or :: "pyval \<Rightarrow> pyval \<Rightarrow> pyval" where
  "py_or a b = (if py_truthy a then a else b)"

fun dec_digits :: "nat \<Rightarrow> string" where
  "dec_digits n =
     (if n < 10 then [''0123456789'' ! n]
      else dec_digits (n div 10) @ [''0123456789'' ! (n mod 10)])"

definition str_int :: "int \<Rightarrow> string" where
  "str_int i = (if i < 0 then CHR ''-'' # dec_digits (nat (- i)) else dec_digits (nat i))"

text \<open>\<^verbatim>\<open>str(x)\<close>.\<close>

fun py_str :: "builtins \<Rightarrow> pyval \<Rightarrow> string" where
  "py_str B PNone = ''None''"
| "py_str B (PBool b) = (if b then ''True'' else ''False'')"
| "py_str B (PInt i) = str_int i"
| "py_str B (PStr s) = s"
| "py_str B (PList xs) = repr B (PList xs)"
| "py_str B (PDict kvs) = repr B (PDict kvs)"

text \<open>
  \<^verbatim>\<open>d.get(k)\<close>: the value of the key, \<^verbatim>\<open>None\<close> when the key is missing. Only a dict has
  the method; on any other value the call raises AttributeError, here \<^term>\<open>None\<close>.
\<close>

definition py_get :: "pyval \<Rightarrow> string \<Rightarrow> pyval option" where
  "py_get d k =
     (case d of
        PDict kvs \<Rightarrow> Some (case map_of kvs k of None \<Rightarrow> PNone | Some v \<Rightarrow> v)
      | _ \<Rightarrow> None)"

text \<open>
  \<^verbatim>\<open>a < b\<close> and \<^verbatim>\<open>a > b\<close>: strings by code points, integers and booleans as numbers,
  lists by the builtin; every other pair of these values raises TypeError. On these values
  \<^verbatim>\<open>a > b\<close> is \<^verbatim>\<open>b < a\<close>.
\<close>

fun py_num :: "pyval \<Rightarrow> int option" where
  "py_num (PInt i) = Some i"
| "py_num (PBool b) = Some (if b then 1 else 0)"
| "py_num _ = None"

definition py_lt :: "builtins \<Rightarrow> pyval \<Rightarrow> pyval \<Rightarrow> exn + bool" where
  "py_lt B a b =
     (case (a, b) of
        (PStr s, PStr t) \<Rightarrow> Inr (s < t)
      | (PList xs, PList ys) \<Rightarrow> list_lt B xs ys
      | _ \<Rightarrow>
          (case (py_num a, py_num b) of
             (Some i, Some j) \<Rightarrow> Inr (i < j)
           | _ \<Rightarrow> Inl TypeError))"

definition py_gt :: "builtins \<Rightarrow> pyval \<Rightarrow> pyval \<Rightarrow> exn + bool" where
  "py_gt B a b = py_lt B b a"

section \<open>The normalizer: \<^verbatim>\<open>parse_trades_from_result\<close>\<close>

text \<open>
  A result is a gql \<^verbatim>\<open>ExecutionResult\<close> (an object with the attribute \<^verbatim>\<open>data\<close>) or a plain
  decoded value. A normalized record is the dict with the four keys of the source.
\<close>

datatype py_result = ExecutionResult pyval | Plain pyval

record trade_row =
  blocktime :: pyval
  signature :: string
  txn_index :: pyval
  trade_index :: pyval

text \<open>
  The body of the loop over the trades (lines 107 to 120): \<^term>\<open>None\<close> when a line raises,
  otherwise the records appended to \<^verbatim>\<open>out\<close> for this trade, none or one.
\<close>

definition parse_trade :: "builtins \<Rightarrow> pyval \<Rightarrow> trade_row list option" where
  "parse_trade B t = do {
     b \<leftarrow> py_get t ''Block'';
     let block = py_or b (PDict []);
     x \<leftarrow> py_get t ''Transaction'';
     let tx = py_or x (PDict []);
     r \<leftarrow> py_get t ''Trade'';
     let trade = py_or r (PDict []);
     bt \<leftarrow> py_get block ''Time'';
     let bt = py_or bt (PStr '''');
     sg \<leftarrow> py_get tx ''Signature'';
     let sg = py_or sg (PStr '''');
     ti \<leftarrow> py_get tx ''Index'';
     tri \<leftarrow> py_get trade ''Index'';
     Some (if py_truthy bt \<and> sg \<noteq> PNone
           then [\<lparr>blocktime = bt,
                  signature = py_str B sg,
                  txn_index = (if ti \<noteq> PNone then ti else PStr ''''),
                  trade_index = (if tri \<noteq> PNone then tri else PStr '''')\<rparr>]
           else [])
   }"

fun parse_trades :: "builtins \<Rightarrow> pyval list \<Rightarrow> trade_row list option" where
  "parse_trades B [] = Some []"
| "parse_trades B (t # ts) = do {
     out \<leftarrow> parse_trade B t;
     rest \<leftarrow> parse_trades B ts;
     Some (out @ rest)
   }"

text \<open>From \<^verbatim>\<open>data\<close> on (lines 95 to 121).\<close>

definition parse_data :: "builtins \<Rightarrow> pyval \<Rightarrow> trade_row list option" where
  "parse_data B data =
     (case data of
        PDict kvs \<Rightarrow> do {
          solana \<leftarrow> py_get data ''Solana'';
          if \<not> py_truthy solana then Some []
          else do {
            trades \<leftarrow> py_get solana ''DEXTrades'';
            if trades = PNone then Some []
            else parse_trades B (case trades of PList ts \<Rightarrow> ts | _ \<Rightarrow> [trades])
          }
        }
      | _ \<Rightarrow> Some [])"

text \<open>The body of the \<^verbatim>\<open>try\<close>: \<^term>\<open>None\<close> when it raises.\<close>

definition parse_body :: "builtins \<Rightarrow> py_result \<Rightarrow> trade_row list option" where
  "parse_body B result =
     (case result of
        ExecutionResult d \<Rightarrow> parse_data B d
      | Plain v \<Rightarrow>
          (case v of
             PDict kvs \<Rightarrow> do {
               let inner = (case map_of kvs ''payload'' of Some p \<Rightarrow> p | None \<Rightarrow> v);
               d \<leftarrow> py_get inner ''data'';
               parse_data B (py_or d inner)
             }
           | _ \<Rightarrow> Some []))"

definition parse_trades_from_result :: "builtins \<Rightarrow> py_result \<Rightarrow> trade_row list" where
  "parse_trades_from_result B result =
     (case parse_body B result of None \<Rightarrow> [] | Some out \<Rightarrow> out)"

section \<open>The time boundary: \<^verbatim>\<open>_at_time_boundary\<close>\<close>

text \<open>
  \<^verbatim>\<open>str.strip()\<close> removes the white space of both ends; these are the code points below
  256 that Python counts as white space.
\<close>

definition is_space :: "char \<Rightarrow> bool" where
  "is_space c = (of_char c \<in> {9, 10, 11, 12, 13, 28, 29, 30, 31, 32, 133, 160 :: nat})"

definition strip :: "string \<Rightarrow> string" where
  "strip s = rev (dropWhile is_space (rev (dropWhile is_space s)))"

text \<open>The inner function \<^verbatim>\<open>to_sec\<close>: \<^verbatim>\<open>str(s).replace("Z", "").strip()\<close>, cut to 19 characters.\<close>

definition to_sec :: "builtins \<Rightarrow> pyval \<Rightarrow> string" where
  "to_sec B s =
     (let s1 = strip (filter (\<lambda>c. c \<noteq> CHR ''Z'') (py_str B s))
      in if 19 \<le> length s1 then take 19 s1 else s1)"

definition at_time_boundary :: "builtins \<Rightarrow> pyval \<Rightarrow> pyval \<Rightarrow> pyval \<Rightarrow> bool" where
  "at_time_boundary B bt since till =
     (if \<not> py_truthy bt \<or> \<not> py_truthy since \<or> \<not> py_truthy till then False
      else (let bt_sec = to_sec B bt in bt_sec = to_sec B since \<or> bt_sec = to_sec B till))"

section \<open>The live leg: \<^verbatim>\<open>StreamState\<close> and \<^verbatim>\<open>subscribe_and_collect\<close>\<close>

text \<open>
  A CSV file is the list of its data rows, each the four columns of \<^verbatim>\<open>CSV_COLUMNS\<close> as
  text (the header line is left out). The csv writer turns \<^verbatim>\<open>None\<close> into the empty text,
  leaves a string as it is and writes \<^verbatim>\<open>str(x)\<close> for anything else; reading the file gives
  back the texts that were written.
\<close>

type_synonym csv_row = "string \<times> string \<times> string \<times> string"

definition csv_field :: "builtins \<Rightarrow> pyval \<Rightarrow> string" where
  "csv_field B v = (if v = PNone then [] else py_str B v)"

text \<open>
  The state of the stream; \<open>writer\<close> says whether \<^verbatim>\<open>_file\<close> and \<^verbatim>\<open>_writer\<close> are set. The
  file that they write is passed along with the state. An exception in \<^verbatim>\<open>write_trade\<close> is
  caught nowhere and ends the program, so the state and the file it leaves are not kept.
\<close>

record StreamState =
  min_time :: pyval
  max_time :: pyval
  count :: int
  writer :: bool

definition StreamState_init :: StreamState where
  "StreamState_init = \<lparr>min_time = PNone, max_time = PNone, count = 0, writer = False\<rparr>"

definition open_csv :: "StreamState \<times> csv_row list \<Rightarrow> StreamState \<times> csv_row list" where
  "open_csv w = ((fst w)\<lparr>writer := True\<rparr>, [])"

definition close :: "StreamState \<times> csv_row list \<Rightarrow> StreamState \<times> csv_row list" where
  "close w = ((fst w)\<lparr>writer := False\<rparr>, snd w)"

definition write_trade ::
  "builtins \<Rightarrow> pyval \<Rightarrow> string \<Rightarrow> pyval \<Rightarrow> pyval \<Rightarrow> StreamState \<times> csv_row list
     \<Rightarrow> exn + StreamState \<times> csv_row list" where
  "write_trade B bt sg ti tri w =
     (if \<not> writer (fst w) then Inl AttributeError
      else
        (let file = snd w @ [(csv_field B bt, sg, csv_field B ti, csv_field B tri)];
             st1 = (fst w)\<lparr>count := count (fst w) + 1\<rparr>
         in case (if min_time st1 = PNone then Inr True else py_lt B bt (min_time st1)) of
              Inl e \<Rightarrow> Inl e
            | Inr lower \<Rightarrow>
                (let st2 = (if lower then st1\<lparr>min_time := bt\<rparr> else st1)
                 in case (if max_time st2 = PNone then Inr True else py_gt B bt (max_time st2)) of
                      Inl e \<Rightarrow> Inl e
                    | Inr higher \<Rightarrow>
                        Inr (if higher then st2\<lparr>max_time := bt\<rparr> else st2, file))))"

text \<open>The inner loop of \<^verbatim>\<open>subscribe_and_collect\<close>, over the records of one result.\<close>

fun write_rows ::
  "builtins \<Rightarrow> trade_row list \<Rightarrow> StreamState \<times> csv_row list \<Rightarrow> exn + StreamState \<times> csv_row list" where
  "write_rows B [] w = Inr w"
| "write_rows B (row # rows) w =
     (case write_trade B (blocktime row) (signature row)
             (py_or (txn_index row) (PInt 0)) (py_or (trade_index row) (PInt 0)) w of
        Inl e \<Rightarrow> Inl e
      | Inr w' \<Rightarrow> write_rows B rows w')"

text \<open>
  The subscription delivers results until it is cancelled or ends; the list is what it
  delivered.
\<close>

fun subscribe_and_collect ::
  "builtins \<Rightarrow> py_result list \<Rightarrow> StreamState \<times> csv_row list \<Rightarrow> exn + StreamState \<times> csv_row list" where
  "subscribe_and_collect B [] w = Inr w"
| "subscribe_and_collect B (r # rs) w =
     (case write_rows B (parse_trades_from_result B r) w of
        Inl e \<Rightarrow> Inl e
      | Inr w' \<Rightarrow> subscribe_and_collect B rs w')"

definition run_stream :: "builtins \<Rightarrow> py_result list \<Rightarrow> exn + StreamState \<times> csv_row list" where
  "run_stream B rs =
     (case subscribe_and_collect B rs (open_csv (StreamState_init, [])) of
        Inl e \<Rightarrow> Inl e
      | Inr w \<Rightarrow> Inr (close w))"

section \<open>The query leg: \<^verbatim>\<open>run_query_and_compare\<close>\<close>

definition QUERY_LIMIT :: nat where
  "QUERY_LIMIT = 25000"

definition QUERY_MAX_RETRIES :: nat where
  "QUERY_MAX_RETRIES = 4"

definition QUERY_RETRY_DELAY :: int where
  "QUERY_RETRY_DELAY = 5"

text \<open>
  The key of a row of the stream file (line 211) and of a record of the query (line 286),
  and the row that the csv writers get for a record of the query (lines 279 to 284).
\<close>

type_synonym key = "string \<times> string \<times> string"

definition stream_key :: "csv_row \<Rightarrow> key" where
  "stream_key r = (case r of (bt, sg, ti, tri) \<Rightarrow> (sg, ti, tri))"

definition stream_keys :: "csv_row list \<Rightarrow> key set" where
  "stream_keys file = set (map stream_key file)"

definition query_key :: "builtins \<Rightarrow> trade_row \<Rightarrow> key" where
  "query_key B row = (signature row, py_str B (txn_index row), py_str B (trade_index row))"

definition row_dict :: "builtins \<Rightarrow> trade_row \<Rightarrow> csv_row" where
  "row_dict B row =
     (csv_field B (blocktime row), signature row,
      csv_field B (txn_index row), csv_field B (trade_index row))"

text \<open>
  What the endpoint does at one call of \<^verbatim>\<open>client.execute\<close>, and what the program does that
  is seen from outside: a call with its offset, a \<^verbatim>\<open>time.sleep\<close> with its seconds.
\<close>

datatype response = Returned py_result | Raises exn

datatype event = Execute int | Sleep int

text \<open>
  The local variables of \<^verbatim>\<open>run_query_and_compare\<close> with the two files it writes and the
  events so far; \<open>result\<close> is \<^term>\<open>None\<close> as long as the variable is unbound.
\<close>

record query_state =
  mismatch_count :: int
  boundary_excluded_count :: int
  total_query_count :: int
  offset :: int
  first_result_time :: pyval
  last_result_time :: pyval
  result :: "py_result option"
  query_csv :: "csv_row list"
  mismatch_csv :: "csv_row list"
  trace :: "event list"

definition query_state_init :: query_state where
  "query_state_init =
     \<lparr>mismatch_count = 0, boundary_excluded_count = 0, total_query_count = 0, offset = 0,
      first_result_time = PNone, last_result_time = PNone, result = None,
      query_csv = [], mismatch_csv = [], trace = []\<rparr>"

text \<open>The body of the loop over the records of a page (lines 274 to 292).\<close>

definition process_row ::
  "builtins \<Rightarrow> key set \<Rightarrow> pyval \<Rightarrow> pyval \<Rightarrow> query_state \<Rightarrow> trade_row \<Rightarrow> query_state" where
  "process_row B keys since till st row =
     (let st1 = st\<lparr>total_query_count := total_query_count st + 1\<rparr>;
          bt = blocktime row;
          st2 = st1\<lparr>first_result_time :=
                      (if first_result_time st1 = PNone then bt else first_result_time st1),
                    last_result_time := bt\<rparr>;
          st3 = st2\<lparr>query_csv := query_csv st2 @ [row_dict B row]\<rparr>
      in if query_key B row \<notin> keys
         then (if at_time_boundary B bt since till
               then st3\<lparr>boundary_excluded_count := boundary_excluded_count st3 + 1\<rparr>
               else st3\<lparr>mismatch_count := mismatch_count st3 + 1,
                        mismatch_csv := mismatch_csv st3 @ [row_dict B row]\<rparr>)
         else st3)"

definition process_rows ::
  "builtins \<Rightarrow> key set \<Rightarrow> pyval \<Rightarrow> pyval \<Rightarrow> query_state \<Rightarrow> trade_row list \<Rightarrow> query_state" where
  "process_rows B keys since till st rows = foldl (process_row B keys since till) st rows"

text \<open>
  The \<^verbatim>\<open>for attempt in range(QUERY_MAX_RETRIES)\<close> loop (lines 254 to 269) against the
  responses still to come. It ends with \<^verbatim>\<open>break\<close>, by running out of attempts, with an
  exception, or never (the endpoint gives no response to the call).
\<close>

datatype attempts =
    Broke py_result "event list" "response list"
  | RanOut "event list" "response list"
  | Raised exn "event list" "response list"
  | Starved "event list"

definition caught :: "exn \<Rightarrow> bool" where
  "caught e = (e = ChunkedEncodingError \<or> e = ConnectionError \<or> e = ProtocolError)"

fun try_attempts :: "int \<Rightarrow> nat list \<Rightarrow> response list \<Rightarrow> event list \<Rightarrow> attempts" where
  "try_attempts off [] script ev = RanOut ev script"
| "try_attempts off (attempt # later) [] ev = Starved (ev @ [Execute off])"
| "try_attempts off (attempt # later) (Returned r # script) ev =
     Broke r (ev @ [Execute off]) script"
| "try_attempts off (attempt # later) (Raises e # script) ev =
     (if caught e then
        (if attempt < QUERY_MAX_RETRIES - 1
         then try_attempts off later script
                (ev @ [Execute off, Sleep (QUERY_RETRY_DELAY * (int attempt + 1))])
         else Raised e (ev @ [Execute off]) script)
      else Raised e (ev @ [Execute off]) script)"

text \<open>How the \<^verbatim>\<open>while True\<close> loop ends.\<close>

datatype loop_end = Break | Exception exn | NoResponse

datatype fetched =
    Proceed query_state "response list"
  | Ended loop_end query_state "response list"

text \<open>Lines 252 to 269: the attempts for the page at the current offset.\<close>

definition fetch_page :: "query_state \<Rightarrow> response list \<Rightarrow> fetched" where
  "fetch_page st script =
     (case try_attempts (offset st) [0..<QUERY_MAX_RETRIES] script [] of
        Broke r ev rest \<Rightarrow> Proceed (st\<lparr>result := Some r, trace := trace st @ ev\<rparr>) rest
      | RanOut ev rest \<Rightarrow> Proceed (st\<lparr>trace := trace st @ ev\<rparr>) rest
      | Raised e ev rest \<Rightarrow> Ended (Exception e) (st\<lparr>trace := trace st @ ev\<rparr>) rest
      | Starved ev \<Rightarrow> Ended NoResponse (st\<lparr>trace := trace st @ ev\<rparr>) [])"

text \<open>Lines 270 to 297: the page in \<open>result\<close> is reconciled; the loop goes on or ends.\<close>

datatype paged = Continue query_state | Stop loop_end query_state

definition reconcile_page ::
  "builtins \<Rightarrow> key set \<Rightarrow> pyval \<Rightarrow> pyval \<Rightarrow> query_state \<Rightarrow> paged" where
  "reconcile_page B keys since till st =
     (case result st of
        None \<Rightarrow> Stop (Exception UnboundLocalError) st
      | Some r \<Rightarrow>
          (let rows = parse_trades_from_result B r
           in if rows = [] then Stop Break st
              else
                (let st1 = process_rows B keys since till st rows
                 in if length rows < QUERY_LIMIT then Stop Break st1
                    else Continue (st1\<lparr>offset := offset st1 + int QUERY_LIMIT,
                                        trace := trace st1 @ [Sleep 2]\<rparr>))))"

text \<open>
  The \<^verbatim>\<open>while True\<close> loop (lines 251 to 297). Every pass takes at least one response, which
  is why the loop ends on every finite list of responses.
\<close>

lemma try_attempts_shorter:
  "try_attempts off as script ev = Broke r ev' rest \<Longrightarrow> length rest < length script"
  by (induction off as script ev rule: try_attempts.induct) (auto split: if_splits)

lemma try_attempts_RanOut:
  "try_attempts off as script ev = RanOut ev' rest \<Longrightarrow> QUERY_MAX_RETRIES - 1 \<notin> set as"
  by (induction off as script ev rule: try_attempts.induct) (auto split: if_splits)

lemma try_attempts_range_RanOut:
  "try_attempts off [0..<QUERY_MAX_RETRIES] script ev \<noteq> RanOut ev' rest"
proof
  assume "try_attempts off [0..<QUERY_MAX_RETRIES] script ev = RanOut ev' rest"
  then have "QUERY_MAX_RETRIES - 1 \<notin> set [0..<QUERY_MAX_RETRIES]"
    by (rule try_attempts_RanOut)
  then show False
    by (simp add: QUERY_MAX_RETRIES_def)
qed

lemma fetch_page_shorter:
  "fetch_page st script = Proceed st' rest \<Longrightarrow> length rest < length script"
  by (auto simp: fetch_page_def try_attempts_range_RanOut split: attempts.splits
      dest: try_attempts_shorter)

function query_loop ::
  "builtins \<Rightarrow> key set \<Rightarrow> pyval \<Rightarrow> pyval \<Rightarrow> query_state \<Rightarrow> response list
     \<Rightarrow> loop_end \<times> query_state \<times> response list" where
  "query_loop B keys since till st script =
     (case fetch_page st script of
        Ended e st1 rest \<Rightarrow> (e, st1, rest)
      | Proceed st1 rest \<Rightarrow>
          (case reconcile_page B keys since till st1 of
             Stop e st2 \<Rightarrow> (e, st2, rest)
           | Continue st2 \<Rightarrow> query_loop B keys since till st2 rest))"
  by pat_completeness auto
termination
  by (relation "measure (\<lambda>(B, keys, since, till, st, script). length script)")
     (auto dest: fetch_page_shorter)

declare query_loop.simps [simp del]

text \<open>
  The final statistics (lines 299 to 314), as the values that are printed. The share is a
  quotient of integers, computed here as a rational number; the rounding of the floating
  point division and of the two printed decimals is not modelled.
\<close>

record summary =
  stats_since :: pyval
  stats_till :: pyval
  stats_stream_count :: int
  stats_total_query_count :: int
  stats_boundary_excluded_count :: int
  stats_mismatch_count :: int
  stats_pct :: "rat option"

definition py_truediv :: "rat \<Rightarrow> rat \<Rightarrow> exn + rat" where
  "py_truediv a b = (if b = 0 then Inl ZeroDivisionError else Inr (a / b))"

definition final_stats :: "StreamState \<Rightarrow> pyval \<Rightarrow> pyval \<Rightarrow> query_state \<Rightarrow> exn + summary" where
  "final_stats state since till st =
     (case (if total_query_count st > 0
            then (case py_truediv (100 * of_int (mismatch_count st))
                         (of_int (total_query_count st)) of
                    Inl e \<Rightarrow> Inl e
                  | Inr pct \<Rightarrow> Inr (Some pct))
            else Inr None) of
        Inl e \<Rightarrow> Inl e
      | Inr pct \<Rightarrow>
          Inr \<lparr>stats_since = since, stats_till = till,
               stats_stream_count = count state,
               stats_total_query_count = total_query_count st,
               stats_boundary_excluded_count = boundary_excluded_count st,
               stats_mismatch_count = mismatch_count st,
               stats_pct = pct\<rparr>)"

text \<open>
  \<^verbatim>\<open>run_query_and_compare\<close> on the state and the file of the stream, against the responses
  of the endpoint: skipped when there is no time range, reported, ended by an exception,
  or waiting for a response that does not come.
\<close>

datatype run_end =
    Skipped
  | Reported summary query_state "response list"
  | Failed exn query_state "response list"
  | Hung query_state

definition run_query_and_compare ::
  "builtins \<Rightarrow> StreamState \<Rightarrow> csv_row list \<Rightarrow> response list \<Rightarrow> run_end" where
  "run_query_and_compare B state file script =
     (let since = min_time state; till = max_time state
      in if \<not> py_truthy since \<or> \<not> py_truthy till then Skipped
         else
           (case query_loop B (stream_keys file) since till query_state_init script of
              (Break, st, rest) \<Rightarrow>
                (case final_stats state since till st of
                   Inl e \<Rightarrow> Failed e st rest
                 | Inr s \<Rightarrow> Reported s st rest)
            | (Exception e, st, rest) \<Rightarrow> Failed e st rest
            | (NoResponse, st, rest) \<Rightarrow> Hung st))"

text \<open>\<^verbatim>\<open>main\<close> once the token is there (lines 323 to 327).\<close>

datatype main_end = StreamFailed exn | NothingCollected | Compared run_end

definition main :: "builtins \<Rightarrow> py_result list \<Rightarrow> response list \<Rightarrow> main_end" where
  "main B delivered script =
     (case run_stream B delivered of
        Inl e \<Rightarrow> StreamFailed e
      | Inr w \<Rightarrow>
          (if count (fst w) = 0 then NothingCollected
           else Compared (run_query_and_compare B (fst w) (snd w) script)))"

section \<open>What the normalizer emits\<close>

text \<open>
  Every record that the normalizer emits has a blocktime that counts as true, and the
  two indices are never \<^verbatim>\<open>None\<close>: a null index has become the empty string.
\<close>

lemma parse_trade_row_shape:
  "parse_trade B t = Some rows \<Longrightarrow> row \<in> set rows \<Longrightarrow>
     py_truthy (blocktime row) \<and> txn_index row \<noteq> PNone \<and> trade_index row \<noteq> PNone"
  by (auto simp: parse_trade_def Let_def split: bind_splits if_splits)

lemma parse_trades_row_shape:
  "parse_trades B ts = Some rows \<Longrightarrow> row \<in> set rows \<Longrightarrow>
     py_truthy (blocktime row) \<and> txn_index row \<noteq> PNone \<and> trade_index row \<noteq> PNone"
proof (induction ts arbitrary: rows)
  case Nil
  then show ?case by simp
next
  case (Cons t ts)
  from Cons.prems(1) obtain out rest where
    out: "parse_trade B t = Some out" and rest: "parse_trades B ts = Some rest"
    and rows: "rows = out @ rest"
    by (auto split: bind_splits)
  from Cons.prems(2) rows have "row \<in> set out \<or> row \<in> set rest" by simp
  then show ?case
    using parse_trade_row_shape [OF out] Cons.IH [OF rest] by blast
qed

lemma parse_data_cases:
  assumes "parse_data B d = Some rows"
  shows "rows = [] \<or> (\<exists>ts. parse_trades B ts = Some rows)"
proof (cases d)
  case (PDict kvs)
  with assms show ?thesis
    by (auto simp: parse_data_def split: bind_splits if_splits)
qed (use assms in \<open>simp_all add: parse_data_def\<close>)

lemma parse_data_row_shape:
  "parse_data B d = Some rows \<Longrightarrow> row \<in> set rows \<Longrightarrow>
     py_truthy (blocktime row) \<and> txn_index row \<noteq> PNone \<and> trade_index row \<noteq> PNone"
  using parse_data_cases [of B d rows] parse_trades_row_shape [of B _ rows row]
  by auto

lemma parse_body_row_shape:
  "parse_body B r = Some rows \<Longrightarrow> row \<in> set rows \<Longrightarrow>
     py_truthy (blocktime row) \<and> txn_index row \<noteq> PNone \<and> trade_index row \<noteq> PNone"
  by (auto simp: parse_body_def Let_def split: py_result.splits pyval.splits bind_splits
      dest: parse_data_row_shape)

lemma parse_row_shape:
  assumes "row \<in> set (parse_trades_from_result B r)"
  shows "py_truthy (blocktime row) \<and> txn_index row \<noteq> PNone \<and> trade_index row \<noteq> PNone"
proof (cases "parse_body B r")
  case None
  with assms show ?thesis by (simp add: parse_trades_from_result_def)
next
  case (Some rows)
  with assms have "row \<in> set rows" by (simp add: parse_trades_from_result_def)
  with Some show ?thesis by (rule parse_body_row_shape)
qed

text \<open>
  Claim C2, as the code has it: when the normalizer accepts a raw record whose
  \<^verbatim>\<open>Transaction.Index\<close> (or \<^verbatim>\<open>Trade.Index\<close>) is missing or null, the normalized record
  carries the empty string in \<^verbatim>\<open>txn_index\<close> (or \<^verbatim>\<open>trade_index\<close>), not the integer 0.
\<close>

theorem missing_index_is_empty_string:
  assumes "parse_trade B t = Some [row]"
  shows "(\<forall>x. py_get t ''Transaction'' = Some x \<longrightarrow>
            py_get (py_or x (PDict [])) ''Index'' = Some PNone \<longrightarrow> txn_index row = PStr '''')
       \<and> (\<forall>x. py_get t ''Trade'' = Some x \<longrightarrow>
            py_get (py_or x (PDict [])) ''Index'' = Some PNone \<longrightarrow> trade_index row = PStr '''')"
  using assms
  by (auto simp: parse_trade_def Let_def split: bind_splits if_splits)

theorem missing_index_is_empty_string_witness:
  "parse_trade \<lparr>repr = (\<lambda>v. []), list_lt = (\<lambda>xs ys. Inl TypeError)\<rparr>
     (PDict [(''Block'', PDict [(''Time'', PStr ''2024-01-01T00:00:07Z'')]),
             (''Transaction'', PDict [(''Signature'', PStr ''B'')]),
             (''Trade'', PDict [(''Index'', PNone)])])
   = Some [\<lparr>blocktime = PStr ''2024-01-01T00:00:07Z'', signature = ''B'',
             txn_index = PStr '''', trade_index = PStr ''''\<rparr>]"
  using missing_index_is_empty_string
    [of "\<lparr>repr = (\<lambda>v. []), list_lt = (\<lambda>xs ys. Inl TypeError)\<rparr>"
        "PDict [(''Block'', PDict [(''Time'', PStr ''2024-01-01T00:00:07Z'')]),
             (''Transaction'', PDict [(''Signature'', PStr ''B'')]),
             (''Trade'', PDict [(''Index'', PNone)])]"
        "\<lparr>blocktime = PStr ''2024-01-01T00:00:07Z'', signature = ''B'',
             txn_index = PStr '''', trade_index = PStr ''''\<rparr>"]
  by (simp add: parse_trade_def py_get_def py_or_def)

text \<open>
  Claim C2 as it is stated fails: a trade with no \<^verbatim>\<open>Transaction.Index\<close> and a null
  \<^verbatim>\<open>Trade.Index\<close> is accepted, and the record carries the empty string, which is not 0.
\<close>

theorem normalizer_missing_index_counterexample:
  "parse_trades_from_result \<lparr>repr = (\<lambda>v. []), list_lt = (\<lambda>xs ys. Inl TypeError)\<rparr>
     (Plain (PDict [(''Solana'', PDict [(''DEXTrades'', PList
        [PDict [(''Block'', PDict [(''Time'', PStr ''2024-01-01T00:00:07Z'')]),
                (''Transaction'', PDict [(''Signature'', PStr ''B'')]),
                (''Trade'', PDict [(''Index'', PNone)])]])])]))
   = [\<lparr>blocktime = PStr ''2024-01-01T00:00:07Z'', signature = ''B'',
        txn_index = PStr '''', trade_index = PStr ''''\<rparr>]
   \<and> PStr '''' \<noteq> PInt 0"
  by (simp add: parse_trades_from_result_def parse_body_def parse_data_def parse_trade_def
      py_get_def py_or_def)

text \<open>
  Claim C3 asks that a record with no signature be discarded. The test of line 114,
  \<^verbatim>\<open>signature is not None\<close>, comes after \<^verbatim>\<open>or ""\<close> has replaced an absent signature by the
  empty string, so it never fails: the trade below, which has a time and no signature, is
  emitted with the empty signature.
\<close>

theorem absent_signature_is_emitted:
  "parse_trades_from_result B
     (Plain (PDict [(''Solana'', PDict [(''DEXTrades'', PList
        [PDict [(''Block'', PDict [(''Time'', PStr ''2024-01-01T00:00:07Z'')]),
                (''Transaction'', PDict [(''Index'', PInt 4)]),
                (''Trade'', PDict [(''Index'', PInt 0)])]])])]))
   = [\<lparr>blocktime = PStr ''2024-01-01T00:00:07Z'', signature = '''',
        txn_index = PInt 4, trade_index = PInt 0\<rparr>]"
  by (simp add: parse_trades_from_result_def parse_body_def parse_data_def parse_trade_def
      py_get_def py_or_def)

text \<open>
  The other half of that claim holds: a trade whose time is missing, null or empty gives
  no record.
\<close>

lemma empty_blocktime_is_discarded:
  assumes "parse_trade B t = Some rows"
    and "py_get t ''Block'' = Some b"
    and "py_get (py_or b (PDict [])) ''Time'' = Some bt"
    and "\<not> py_truthy bt"
  shows "rows = []"
  using assms
  by (auto simp: parse_trade_def py_or_def Let_def split: bind_splits if_splits)

section \<open>Properties of the reconciler\<close>

text \<open>
  Claim C4: a record of the query whose key is not in the live index and whose blocktime,
  cut to the second by \<^verbatim>\<open>to_sec\<close>, equals \<^verbatim>\<open>since\<close> or \<^verbatim>\<open>till\<close> cut the same way, is counted as
  boundary excluded; it is not counted as a mismatch and not written to the mismatch file.
  The record is one that the normalizer emitted, and \<^verbatim>\<open>since\<close> and \<^verbatim>\<open>till\<close> pass the test of
  line 201.
\<close>

theorem boundary_record_never_missed:
  assumes "row \<in> set (parse_trades_from_result B r)"
    and "py_truthy since" and "py_truthy till"
    and "query_key B row \<notin> keys"
    and "to_sec B (blocktime row) = to_sec B since \<or> to_sec B (blocktime row) = to_sec B till"
  shows "boundary_excluded_count (process_row B keys since till st row)
           = boundary_excluded_count st + 1
       \<and> mismatch_count (process_row B keys since till st row) = mismatch_count st
       \<and> mismatch_csv (process_row B keys since till st row) = mismatch_csv st"
proof -
  from assms(1) have "py_truthy (blocktime row)"
    by (simp add: parse_row_shape)
  with assms(2,3,5) have "at_time_boundary B (blocktime row) since till"
    by (simp add: at_time_boundary_def Let_def)
  with assms(4) show ?thesis
    by (simp add: process_row_def Let_def)
qed

theorem boundary_record_never_missed_witness:
  "boundary_excluded_count
     (process_row \<lparr>repr = (\<lambda>v. []), list_lt = (\<lambda>xs ys. Inl TypeError)\<rparr>
        {(''S1'', ''0'', ''0''), (''S2'', ''1'', ''0'')}
        (PStr ''2024-01-01T00:00:05'') (PStr ''2024-01-01T00:00:10'') query_state_init
        \<lparr>blocktime = PStr ''2024-01-01T00:00:05.250Z'', signature = ''S3'',
           txn_index = PInt 0, trade_index = PInt 0\<rparr>) = 1
   \<and> mismatch_csv
     (process_row \<lparr>repr = (\<lambda>v. []), list_lt = (\<lambda>xs ys. Inl TypeError)\<rparr>
        {(''S1'', ''0'', ''0''), (''S2'', ''1'', ''0'')}
        (PStr ''2024-01-01T00:00:05'') (PStr ''2024-01-01T00:00:10'') query_state_init
        \<lparr>blocktime = PStr ''2024-01-01T00:00:05.250Z'', signature = ''S3'',
           txn_index = PInt 0, trade_index = PInt 0\<rparr>) = []"
  using boundary_record_never_missed
    [of "\<lparr>blocktime = PStr ''2024-01-01T00:00:05.250Z'', signature = ''S3'',
           txn_index = PInt 0, trade_index = PInt 0\<rparr>"
        "\<lparr>repr = (\<lambda>v. []), list_lt = (\<lambda>xs ys. Inl TypeError)\<rparr>"
        "Plain (PDict [(''Solana'', PDict [(''DEXTrades'', PList
           [PDict [(''Block'', PDict [(''Time'', PStr ''2024-01-01T00:00:05.250Z'')]),
                   (''Transaction'', PDict [(''Signature'', PStr ''S3''), (''Index'', PInt 0)]),
                   (''Trade'', PDict [(''Index'', PInt 0)])]])])])"
        "PStr ''2024-01-01T00:00:05''" "PStr ''2024-01-01T00:00:10''"
        "{(''S1'', ''0'', ''0''), (''S2'', ''1'', ''0'')}" query_state_init]
  by (simp add: parse_trades_from_result_def parse_body_def parse_data_def parse_trade_def
      py_get_def py_or_def query_key_def str_int_def to_sec_def strip_def is_space_def
      query_state_init_def)

text \<open>
  The three classes of the specification, decided as lines 287 to 292 decide them: a
  record whose key is in the live index is matched; one whose key is absent is boundary
  excluded when \<^verbatim>\<open>_at_time_boundary\<close> holds of its blocktime, and missed otherwise.
  \<open>class_count\<close> is the number of records of a class in a list of records.
\<close>

datatype outcome = Matched | BoundaryExcluded | Missed

definition classify :: "builtins \<Rightarrow> key set \<Rightarrow> pyval \<Rightarrow> pyval \<Rightarrow> trade_row \<Rightarrow> outcome" where
  "classify B keys since till row =
     (if query_key B row \<in> keys then Matched
      else if at_time_boundary B (blocktime row) since till then BoundaryExcluded
      else Missed)"

definition class_count ::
  "builtins \<Rightarrow> key set \<Rightarrow> pyval \<Rightarrow> pyval \<Rightarrow> outcome \<Rightarrow> trade_row list \<Rightarrow> int" where
  "class_count B keys since till c rows =
     int (length (filter (\<lambda>row. classify B keys since till row = c) rows))"

text \<open>
  The records that the query leg processes when it takes the responses \<open>used\<close>: those
  that the normalizer gives for the results returned, in order. The ledger of a state is
  what the claim is about: the three counters and the two files.
\<close>

definition returned_rows :: "builtins \<Rightarrow> response list \<Rightarrow> trade_row list" where
  "returned_rows B used =
     concat (map (\<lambda>resp. case resp of
                            Returned r \<Rightarrow> parse_trades_from_result B r
                          | Raises e \<Rightarrow> []) used)"

definition ledger ::
  "query_state \<Rightarrow> int \<times> int \<times> int \<times> csv_row list \<times> csv_row list" where
  "ledger st =
     (total_query_count st, boundary_excluded_count st, mismatch_count st,
      query_csv st, mismatch_csv st)"

lemma class_count_Nil: "class_count B keys since till c [] = 0"
  by (simp add: class_count_def)

lemma class_count_Cons:
  "class_count B keys since till c (row # rows) =
     (if classify B keys since till row = c then 1 else 0) + class_count B keys since till c rows"
  by (simp add: class_count_def)

lemma classes_partition:
  "int (length rows) =
     class_count B keys since till Matched rows
     + class_count B keys since till BoundaryExcluded rows
     + class_count B keys since till Missed rows"
proof (induction rows)
  case Nil
  show ?case by (simp add: class_count_Nil)
next
  case (Cons row rows)
  then show ?case
    by (cases "classify B keys since till row") (simp_all add: class_count_Cons)
qed

lemma process_row_ledger:
  "ledger (process_row B keys since till st row) =
     (total_query_count st + 1,
      boundary_excluded_count st
        + (if classify B keys since till row = BoundaryExcluded then 1 else 0),
      mismatch_count st + (if classify B keys since till row = Missed then 1 else 0),
      query_csv st @ [row_dict B row],
      mismatch_csv st
        @ (if classify B keys since till row = Missed then [row_dict B row] else []))"
  by (simp add: ledger_def process_row_def classify_def Let_def)

lemma process_rows_ledger:
  "ledger (process_rows B keys since till st rows) =
     (total_query_count st + int (length rows),
      boundary_excluded_count st + class_count B keys since till BoundaryExcluded rows,
      mismatch_count st + class_count B keys since till Missed rows,
      query_csv st @ map (row_dict B) rows,
      mismatch_csv st
        @ map (row_dict B) (filter (\<lambda>row. classify B keys since till row = Missed) rows))"
proof (induction rows arbitrary: st)
  case Nil
  show ?case by (simp add: process_rows_def ledger_def class_count_Nil)
next
  case (Cons row rows)
  have step: "process_rows B keys since till st (row # rows)
                = process_rows B keys since till (process_row B keys since till st row) rows"
    by (simp add: process_rows_def)
  have parts:
    "total_query_count (process_row B keys since till st row) = total_query_count st + 1"
    "boundary_excluded_count (process_row B keys since till st row)
       = boundary_excluded_count st
         + (if classify B keys since till row = BoundaryExcluded then 1 else 0)"
    "mismatch_count (process_row B keys since till st row)
       = mismatch_count st + (if classify B keys since till row = Missed then 1 else 0)"
    "query_csv (process_row B keys since till st row) = query_csv st @ [row_dict B row]"
    "mismatch_csv (process_row B keys since till st row)
       = mismatch_csv st
         @ (if classify B keys since till row = Missed then [row_dict B row] else [])"
    using process_row_ledger [of B keys since till st row]
    by (simp_all add: ledger_def)
  show ?case
    unfolding step Cons.IH parts
    by (simp add: class_count_Cons)
qed

lemma process_rows_ledger_cong:
  "ledger st = ledger st' \<Longrightarrow>
     ledger (process_rows B keys since till st rows)
       = ledger (process_rows B keys since till st' rows)"
  unfolding process_rows_ledger by (simp add: ledger_def)

lemma process_rows_append:
  "process_rows B keys since till st (xs @ ys)
     = process_rows B keys since till (process_rows B keys since till st xs) ys"
  by (simp add: process_rows_def)

lemma returned_rows_append:
  "returned_rows B (xs @ ys) = returned_rows B xs @ returned_rows B ys"
  by (simp add: returned_rows_def)

lemma returned_rows_Raises: "returned_rows B (map Raises es) = []"
  by (induction es) (simp_all add: returned_rows_def)

lemma try_attempts_used:
  "try_attempts off as script ev = Broke r ev' rest \<Longrightarrow>
     \<exists>es. script = map Raises es @ Returned r # rest"
  "try_attempts off as script ev = Raised e ev' rest \<Longrightarrow>
     \<exists>es. script = map Raises es @ rest"
  "try_attempts off as script ev = Starved ev' \<Longrightarrow> \<exists>es. script = map Raises es"
proof (induction off as script ev rule: try_attempts.induct)
  case (1 off script ev)
  { case 1 then show ?case by simp
  next case 2 then show ?case by simp
  next case 3 then show ?case by simp }
next
  case (2 off attempt later ev)
  { case 1 then show ?case by simp
  next case 2 then show ?case by simp
  next case 3 show ?case by (rule exI [of _ "[]"]) simp }
next
  case (3 off attempt later r' script ev)
  { case 1 then show ?case by (intro exI [of _ "[]"]) simp
  next case 2 then show ?case by simp
  next case 3 then show ?case by simp }
next
  case (4 off attempt later e' script ev)
  { case 1
    then show ?case
      using "4.IH"(1) by (auto split: if_splits intro: exI [of _ "e' # _"])
  next
    case 2
    then show ?case
      using "4.IH"(2)
      by (auto split: if_splits intro: exI [of _ "e' # _"] exI [of _ "[e']"])
  next
    case 3
    then show ?case
      using "4.IH"(3) by (auto split: if_splits intro: exI [of _ "e' # _"]) }
qed

lemma fetch_page_used:
  "fetch_page st script = Proceed st1 rest \<Longrightarrow>
     \<exists>used r. script = used @ rest \<and> returned_rows B used = parse_trades_from_result B r
       \<and> result st1 = Some r \<and> ledger st1 = ledger st"
  "fetch_page st script = Ended e st1 rest \<Longrightarrow>
     \<exists>used. script = used @ rest \<and> returned_rows B used = [] \<and> ledger st1 = ledger st"
proof -
  assume "fetch_page st script = Proceed st1 rest"
  then obtain r ev where
    broke: "try_attempts (offset st) [0..<QUERY_MAX_RETRIES] script [] = Broke r ev rest"
    and st1: "st1 = st\<lparr>result := Some r, trace := trace st @ ev\<rparr>"
    by (auto simp: fetch_page_def try_attempts_range_RanOut split: attempts.splits)
  from try_attempts_used(1) [OF broke] obtain es where
    "script = (map Raises es @ [Returned r]) @ rest"
    by auto
  moreover have "returned_rows B (map Raises es @ [Returned r]) = parse_trades_from_result B r"
    by (simp add: returned_rows_append returned_rows_Raises) (simp add: returned_rows_def)
  moreover from st1 have "result st1 = Some r" and "ledger st1 = ledger st"
    by (simp_all add: ledger_def)
  ultimately show "\<exists>used r. script = used @ rest
       \<and> returned_rows B used = parse_trades_from_result B r
       \<and> result st1 = Some r \<and> ledger st1 = ledger st"
    by blast
next
  assume ended: "fetch_page st script = Ended e st1 rest"
  show "\<exists>used. script = used @ rest \<and> returned_rows B used = [] \<and> ledger st1 = ledger st"
  proof (cases "try_attempts (offset st) [0..<QUERY_MAX_RETRIES] script []")
    case (Broke r ev rest')
    with ended show ?thesis by (simp add: fetch_page_def)
  next
    case (RanOut ev rest')
    with ended show ?thesis by (simp add: fetch_page_def)
  next
    case (Raised e' ev rest')
    with ended have "rest' = rest" and st1: "st1 = st\<lparr>trace := trace st @ ev\<rparr>"
      by (simp_all add: fetch_page_def)
    with try_attempts_used(2) [OF Raised] obtain es where "script = map Raises es @ rest"
      by auto
    moreover from st1 have "ledger st1 = ledger st"
      by (simp add: ledger_def)
    ultimately show ?thesis
      using returned_rows_Raises [of B es] by blast
  next
    case (Starved ev)
    with ended have "rest = []" and st1: "st1 = st\<lparr>trace := trace st @ ev\<rparr>"
      by (simp_all add: fetch_page_def)
    with try_attempts_used(3) [OF Starved] obtain es where "script = map Raises es @ rest"
      by auto
    moreover from st1 have "ledger st1 = ledger st"
      by (simp add: ledger_def)
    ultimately show ?thesis
      using returned_rows_Raises [of B es] by blast
  qed
qed

lemma query_loop_ledger:
  "\<exists>used. script = used @ snd (snd (query_loop B keys since till st script))
     \<and> ledger (fst (snd (query_loop B keys since till st script)))
         = ledger (process_rows B keys since till st (returned_rows B used))"
proof (induction B keys since till st script rule: query_loop.induct)
  case (1 B keys since till st script)
  show ?case
  proof (cases "fetch_page st script")
    case (Ended e st1 rest)
    from fetch_page_used(2) [OF Ended, of B] obtain used where
      "script = used @ rest" and "returned_rows B used = []" and "ledger st1 = ledger st"
      by blast
    moreover have "query_loop B keys since till st script = (e, st1, rest)"
      using Ended by (simp add: query_loop.simps [of B keys since till st script])
    ultimately show ?thesis
      by (intro exI [of _ used]) (simp add: process_rows_def)
  next
    case (Proceed st1 rest)
    from fetch_page_used(1) [OF Proceed, of B] obtain used1 r where
      used1: "script = used1 @ rest"
      and rows1: "returned_rows B used1 = parse_trades_from_result B r"
      and res: "result st1 = Some r" and led1: "ledger st1 = ledger st"
      by blast
    let ?rows = "parse_trades_from_result B r"
    have page: "ledger (process_rows B keys since till st1 ?rows)
                  = ledger (process_rows B keys since till st ?rows)"
      using led1 by (rule process_rows_ledger_cong)
    show ?thesis
    proof (cases "reconcile_page B keys since till st1")
      case (Stop e st2)
      with res have "st2 = process_rows B keys since till st1 ?rows"
        by (auto simp: reconcile_page_def Let_def process_rows_def split: if_splits)
      with page have "ledger st2 = ledger (process_rows B keys since till st (returned_rows B used1))"
        by (simp add: rows1)
      moreover have "query_loop B keys since till st script = (e, st2, rest)"
        using Proceed Stop by (simp add: query_loop.simps [of B keys since till st script])
      ultimately show ?thesis
        using used1 by (intro exI [of _ used1]) simp
    next
      case (Continue st2)
      with res have "ledger st2 = ledger (process_rows B keys since till st1 ?rows)"
        by (auto simp: reconcile_page_def Let_def ledger_def split: if_splits)
      with page have led2: "ledger st2 = ledger (process_rows B keys since till st ?rows)"
        by simp
      from "1.IH" [OF Proceed Continue] obtain used2 where
        used2: "rest = used2 @ snd (snd (query_loop B keys since till st2 rest))"
        and fin: "ledger (fst (snd (query_loop B keys since till st2 rest)))
                    = ledger (process_rows B keys since till st2 (returned_rows B used2))"
        by blast
      have loop: "query_loop B keys since till st script = query_loop B keys since till st2 rest"
        using Proceed Continue by (simp add: query_loop.simps [of B keys since till st script])
      have "script = (used1 @ used2) @ snd (snd (query_loop B keys since till st script))"
        using used1 used2 loop by simp
      moreover have "ledger (fst (snd (query_loop B keys since till st script)))
          = ledger (process_rows B keys since till st (returned_rows B (used1 @ used2)))"
        unfolding loop fin returned_rows_append rows1 process_rows_append
        using led2 by (rule process_rows_ledger_cong)
      ultimately show ?thesis
        by blast
    qed
  qed
qed

text \<open>
  Claim C5: however the query loop ends and whatever the endpoint answered, the loop has
  taken a front part \<open>used\<close> of the responses, and over the records processed, which are
  the records of the results returned in \<open>used\<close>, \<^verbatim>\<open>total_query_count\<close> is their number,
  \<^verbatim>\<open>boundary_excluded_count\<close> the number of the boundary excluded ones and
  \<^verbatim>\<open>mismatch_count\<close> the number of the missed ones, so that \<^verbatim>\<open>total_query_count\<close> is the
  number of matched records plus the two counters; every record is in the query file and
  the missed ones are in the mismatch file. The same holds of the counters after any list
  of records processed from any state, a prefix of the records of a page included: each
  record adds one to the total and falls in exactly one class.
\<close>

theorem conservation:
  "(\<exists>used. script = used @ snd (snd (query_loop B keys since till query_state_init script))
      \<and> total_query_count (fst (snd (query_loop B keys since till query_state_init script)))
          = int (length (returned_rows B used))
      \<and> boundary_excluded_count (fst (snd (query_loop B keys since till query_state_init script)))
          = class_count B keys since till BoundaryExcluded (returned_rows B used)
      \<and> mismatch_count (fst (snd (query_loop B keys since till query_state_init script)))
          = class_count B keys since till Missed (returned_rows B used)
      \<and> total_query_count (fst (snd (query_loop B keys since till query_state_init script)))
          = class_count B keys since till Matched (returned_rows B used)
            + boundary_excluded_count
                (fst (snd (query_loop B keys since till query_state_init script)))
            + mismatch_count (fst (snd (query_loop B keys since till query_state_init script)))
      \<and> query_csv (fst (snd (query_loop B keys since till query_state_init script)))
          = map (row_dict B) (returned_rows B used)
      \<and> mismatch_csv (fst (snd (query_loop B keys since till query_state_init script)))
          = map (row_dict B)
              (filter (\<lambda>row. classify B keys since till row = Missed) (returned_rows B used)))
   \<and> total_query_count (process_rows B keys since till st rows)
       = total_query_count st + int (length rows)
   \<and> boundary_excluded_count (process_rows B keys since till st rows)
       = boundary_excluded_count st + class_count B keys since till BoundaryExcluded rows
   \<and> mismatch_count (process_rows B keys since till st rows)
       = mismatch_count st + class_count B keys since till Missed rows
   \<and> int (length rows)
       = class_count B keys since till Matched rows
         + class_count B keys since till BoundaryExcluded rows
         + class_count B keys since till Missed rows"
proof -
  let ?end = "query_loop B keys since till query_state_init script"
  from query_loop_ledger [of script B keys since till query_state_init] obtain used where
    used: "script = used @ snd (snd ?end)"
    and led: "ledger (fst (snd ?end))
                = ledger (process_rows B keys since till query_state_init (returned_rows B used))"
    by blast
  from led have run:
    "total_query_count (fst (snd ?end)) = int (length (returned_rows B used))"
    "boundary_excluded_count (fst (snd ?end))
       = class_count B keys since till BoundaryExcluded (returned_rows B used)"
    "mismatch_count (fst (snd ?end)) = class_count B keys since till Missed (returned_rows B used)"
    "query_csv (fst (snd ?end)) = map (row_dict B) (returned_rows B used)"
    "mismatch_csv (fst (snd ?end))
       = map (row_dict B)
           (filter (\<lambda>row. classify B keys since till row = Missed) (returned_rows B used))"
    unfolding process_rows_ledger by (simp_all add: ledger_def query_state_init_def)
  have sum: "total_query_count (fst (snd ?end))
          = class_count B keys since till Matched (returned_rows B used)
            + boundary_excluded_count (fst (snd ?end)) + mismatch_count (fst (snd ?end))"
    unfolding run(1,2,3) by (rule classes_partition)
  have part:
    "total_query_count (process_rows B keys since till st rows)
       = total_query_count st + int (length rows)"
    "boundary_excluded_count (process_rows B keys since till st rows)
       = boundary_excluded_count st + class_count B keys since till BoundaryExcluded rows"
    "mismatch_count (process_rows B keys since till st rows)
       = mismatch_count st + class_count B keys since till Missed rows"
    using process_rows_ledger [of B keys since till st rows] by (simp_all add: ledger_def)
  from used run sum part classes_partition [of rows B keys since till] show ?thesis
    by blast
qed

theorem conservation_witness:
  "snd (snd (query_loop \<lparr>repr = (\<lambda>v. []), list_lt = (\<lambda>xs ys. Inl TypeError)\<rparr>
     {(''S1'', ''0'', ''0''), (''S2'', ''1'', ''0'')}
     (PStr ''2024-01-01T00:00:05'') (PStr ''2024-01-01T00:00:10'') query_state_init
     [Raises ConnectionError,
      Returned (Plain (PDict [(''Solana'', PDict [(''DEXTrades'', PList
        [PDict [(''Block'', PDict [(''Time'', PStr ''2024-01-01T00:00:05'')]),
                (''Transaction'', PDict [(''Signature'', PStr ''S1''), (''Index'', PInt 0)]),
                (''Trade'', PDict [(''Index'', PInt 0)])],
         PDict [(''Block'', PDict [(''Time'', PStr ''2024-01-01T00:00:05'')]),
                (''Transaction'', PDict [(''Signature'', PStr ''S3''), (''Index'', PInt 0)]),
                (''Trade'', PDict [(''Index'', PInt 0)])],
         PDict [(''Block'', PDict [(''Time'', PStr ''2024-01-01T00:00:07'')]),
                (''Transaction'', PDict [(''Signature'', PStr ''S4''), (''Index'', PInt 2)]),
                (''Trade'', PDict [(''Index'', PInt 0)])],
         PDict [(''Block'', PDict [(''Time'', PStr ''2024-01-01T00:00:10'')]),
                (''Transaction'', PDict [(''Signature'', PStr ''S2''), (''Index'', PInt 1)]),
                (''Trade'', PDict [(''Index'', PInt 0)])]])])]))])) = []
   \<and> total_query_count (fst (snd (query_loop \<lparr>repr = (\<lambda>v. []), list_lt = (\<lambda>xs ys. Inl TypeError)\<rparr>
     {(''S1'', ''0'', ''0''), (''S2'', ''1'', ''0'')}
     (PStr ''2024-01-01T00:00:05'') (PStr ''2024-01-01T00:00:10'') query_state_init
     [Raises ConnectionError,
      Returned (Plain (PDict [(''Solana'', PDict [(''DEXTrades'', PList
        [PDict [(''Block'', PDict [(''Time'', PStr ''2024-01-01T00:00:05'')]),
                (''Transaction'', PDict [(''Signature'', PStr ''S1''), (''Index'', PInt 0)]),
                (''Trade'', PDict [(''Index'', PInt 0)])],
         PDict [(''Block'', PDict [(''Time'', PStr ''2024-01-01T00:00:05'')]),
                (''Transaction'', PDict [(''Signature'', PStr ''S3''), (''Index'', PInt 0)]),
                (''Trade'', PDict [(''Index'', PInt 0)])],
         PDict [(''Block'', PDict [(''Time'', PStr ''2024-01-01T00:00:07'')]),
                (''Transaction'', PDict [(''Signature'', PStr ''S4''), (''Index'', PInt 2)]),
                (''Trade'', PDict [(''Index'', PInt 0)])],
         PDict [(''Block'', PDict [(''Time'', PStr ''2024-01-01T00:00:10'')]),
                (''Transaction'', PDict [(''Signature'', PStr ''S2''), (''Index'', PInt 1)]),
                (''Trade'', PDict [(''Index'', PInt 0)])]])])]))]))) = 4
   \<and> class_count \<lparr>repr = (\<lambda>v. []), list_lt = (\<lambda>xs ys. Inl TypeError)\<rparr>
     {(''S1'', ''0'', ''0''), (''S2'', ''1'', ''0'')}
     (PStr ''2024-01-01T00:00:05'') (PStr ''2024-01-01T00:00:10'') Matched
     [\<lparr>blocktime = PStr ''2024-01-01T00:00:05'', signature = ''S1'',
        txn_index = PInt 0, trade_index = PInt 0\<rparr>,
      \<lparr>blocktime = PStr ''2024-01-01T00:00:05'', signature = ''S3'',
        txn_index = PInt 0, trade_index = PInt 0\<rparr>,
      \<lparr>blocktime = PStr ''2024-01-01T00:00:07'', signature = ''S4'',
        txn_index = PInt 2, trade_index = PInt 0\<rparr>,
      \<lparr>blocktime = PStr ''2024-01-01T00:00:10'', signature = ''S2'',
        txn_index = PInt 1, trade_index = PInt 0\<rparr>] = 2"
proof -
  let ?B = "\<lparr>repr = (\<lambda>v. []), list_lt = (\<lambda>xs ys. Inl TypeError)\<rparr>"
  let ?keys = "{(''S1'', ''0'', ''0''), (''S2'', ''1'', ''0'')}"
  let ?since = "PStr ''2024-01-01T00:00:05''"
  let ?till = "PStr ''2024-01-01T00:00:10''"
  let ?page = "Plain (PDict [(''Solana'', PDict [(''DEXTrades'', PList
        [PDict [(''Block'', PDict [(''Time'', PStr ''2024-01-01T00:00:05'')]),
                (''Transaction'', PDict [(''Signature'', PStr ''S1''), (''Index'', PInt 0)]),
                (''Trade'', PDict [(''Index'', PInt 0)])],
         PDict [(''Block'', PDict [(''Time'', PStr ''2024-01-01T00:00:05'')]),
                (''Transaction'', PDict [(''Signature'', PStr ''S3''), (''Index'', PInt 0)]),
                (''Trade'', PDict [(''Index'', PInt 0)])],
         PDict [(''Block'', PDict [(''Time'', PStr ''2024-01-01T00:00:07'')]),
                (''Transaction'', PDict [(''Signature'', PStr ''S4''), (''Index'', PInt 2)]),
                (''Trade'', PDict [(''Index'', PInt 0)])],
         PDict [(''Block'', PDict [(''Time'', PStr ''2024-01-01T00:00:10'')]),
                (''Transaction'', PDict [(''Signature'', PStr ''S2''), (''Index'', PInt 1)]),
                (''Trade'', PDict [(''Index'', PInt 0)])]])])])"
  let ?rows = "[\<lparr>blocktime = PStr ''2024-01-01T00:00:05'', signature = ''S1'',
        txn_index = PInt 0, trade_index = PInt 0\<rparr>,
      \<lparr>blocktime = PStr ''2024-01-01T00:00:05'', signature = ''S3'',
        txn_index = PInt 0, trade_index = PInt 0\<rparr>,
      \<lparr>blocktime = PStr ''2024-01-01T00:00:07'', signature = ''S4'',
        txn_index = PInt 2, trade_index = PInt 0\<rparr>,
      \<lparr>blocktime = PStr ''2024-01-01T00:00:10'', signature = ''S2'',
        txn_index = PInt 1, trade_index = PInt 0\<rparr>]"
  let ?script = "[Raises ConnectionError, Returned ?page]"
  let ?end = "query_loop ?B ?keys ?since ?till query_state_init ?script"
  have rows: "parse_trades_from_result ?B ?page = ?rows"
    by (simp add: parse_trades_from_result_def parse_body_def parse_data_def parse_trade_def
        py_get_def py_or_def)
  have fetch: "fetch_page query_state_init ?script
      = Proceed (query_state_init\<lparr>result := Some ?page,
                   trace := [Execute 0, Sleep 5, Execute 0]\<rparr>) []"
    by (simp add: fetch_page_def caught_def QUERY_MAX_RETRIES_def QUERY_RETRY_DELAY_def upt_rec
        query_state_init_def)
  have "snd (snd ?end) = []"
    unfolding query_loop.simps [of _ _ _ _ _ ?script] fetch fetched.case reconcile_page_def
    by (simp add: rows QUERY_LIMIT_def Let_def)
  moreover have matched: "class_count ?B ?keys ?since ?till Matched ?rows = 2"
    and boundary: "class_count ?B ?keys ?since ?till BoundaryExcluded ?rows = 1"
    and missed: "class_count ?B ?keys ?since ?till Missed ?rows = 1"
    by (simp_all add: class_count_def classify_def query_key_def str_int_def
        at_time_boundary_def to_sec_def strip_def is_space_def)
  moreover from conservation [of ?script ?B ?keys ?since ?till] obtain used where
    "?script = used @ snd (snd ?end)"
    and "total_query_count (fst (snd ?end))
           = class_count ?B ?keys ?since ?till Matched (returned_rows ?B used)
             + boundary_excluded_count (fst (snd ?end)) + mismatch_count (fst (snd ?end))"
    and "boundary_excluded_count (fst (snd ?end))
           = class_count ?B ?keys ?since ?till BoundaryExcluded (returned_rows ?B used)"
    and "mismatch_count (fst (snd ?end))
           = class_count ?B ?keys ?since ?till Missed (returned_rows ?B used)"
    by blast
  moreover have "returned_rows ?B ?script = ?rows"
    by (simp add: returned_rows_def rows del: parse_trades.simps)
  ultimately show ?thesis
    by simp
qed

section \<open>Properties of the paginator\<close>

lemma fetch_page_Returned:
  "fetch_page st (Returned r # rest)
     = Proceed (st\<lparr>result := Some r, trace := trace st @ [Execute (offset st)]\<rparr>) rest"
  by (simp add: fetch_page_def QUERY_MAX_RETRIES_def upt_rec)

lemma process_row_frame:
  "offset (process_row B keys since till st row) = offset st"
  "trace (process_row B keys since till st row) = trace st"
  "result (process_row B keys since till st row) = result st"
  by (simp_all add: process_row_def Let_def)

lemma process_rows_frame:
  "offset (process_rows B keys since till st rows) = offset st
   \<and> trace (process_rows B keys since till st rows) = trace st
   \<and> result (process_rows B keys since till st rows) = result st"
  unfolding process_rows_def
  by (induction rows arbitrary: st) (simp_all add: process_row_frame)

lemma final_stats_total:
  "\<exists>s. final_stats state since till st = Inr s
       \<and> stats_pct s =
           (if 0 < total_query_count st
            then Some (of_int (mismatch_count st) / of_int (total_query_count st) * 100)
            else None)"
  by (simp add: final_stats_def py_truediv_def)

text \<open>
  Claim C10: when the normalizer gives no record for a fetched page (the payload has the
  wrong shape, a line of the extraction raised, or no trade was valid), the loop ends by
  \<^verbatim>\<open>break\<close> as for an exhausted range: no exception, the counters and files as they were,
  no response after this one is asked for, and the final statistics are computed.
\<close>

theorem unparsed_page_ends_run:
  assumes "parse_trades_from_result B r = []"
  shows "query_loop B keys since till st (Returned r # rest)
           = (Break, st\<lparr>result := Some r, trace := trace st @ [Execute (offset st)]\<rparr>, rest)
       \<and> (\<exists>s. final_stats state since till
                 (st\<lparr>result := Some r, trace := trace st @ [Execute (offset st)]\<rparr>) = Inr s)"
proof
  show "query_loop B keys since till st (Returned r # rest)
           = (Break, st\<lparr>result := Some r, trace := trace st @ [Execute (offset st)]\<rparr>, rest)"
    by (simp add: query_loop.simps [of _ _ _ _ _ "Returned r # rest"] fetch_page_Returned
        reconcile_page_def assms)
  show "\<exists>s. final_stats state since till
                 (st\<lparr>result := Some r, trace := trace st @ [Execute (offset st)]\<rparr>) = Inr s"
    using final_stats_total by blast
qed

theorem unparsed_page_ends_run_witness:
  "parse_trades_from_result \<lparr>repr = (\<lambda>v. []), list_lt = (\<lambda>xs ys. Inl TypeError)\<rparr>
     (Plain (PDict [(''Solana'', PDict [(''DEXTrades'', PList
        [PDict [(''Block'', PDict [(''Time'', PStr ''2024-01-01T00:00:07Z'')]),
                (''Transaction'', PDict [(''Signature'', PStr ''S2''), (''Index'', PInt 1)]),
                (''Trade'', PDict [(''Index'', PInt 0)])],
         PStr ''oops''])])])) = []
   \<and> query_loop \<lparr>repr = (\<lambda>v. []), list_lt = (\<lambda>xs ys. Inl TypeError)\<rparr>
       {} (PStr ''2024-01-01T00:00:05Z'') (PStr ''2024-01-01T00:00:10Z'') query_state_init
       [Returned (Plain (PDict [(''Solana'', PDict [(''DEXTrades'', PList
          [PDict [(''Block'', PDict [(''Time'', PStr ''2024-01-01T00:00:07Z'')]),
                  (''Transaction'', PDict [(''Signature'', PStr ''S2''), (''Index'', PInt 1)]),
                  (''Trade'', PDict [(''Index'', PInt 0)])],
           PStr ''oops''])])])),
        Raises OtherException]
     = (Break,
        query_state_init\<lparr>result := Some (Plain (PDict [(''Solana'', PDict [(''DEXTrades'', PList
          [PDict [(''Block'', PDict [(''Time'', PStr ''2024-01-01T00:00:07Z'')]),
                  (''Transaction'', PDict [(''Signature'', PStr ''S2''), (''Index'', PInt 1)]),
                  (''Trade'', PDict [(''Index'', PInt 0)])],
           PStr ''oops''])])])),
          trace := [Execute 0]\<rparr>,
        [Raises OtherException])"
  using unparsed_page_ends_run
    [of "\<lparr>repr = (\<lambda>v. []), list_lt = (\<lambda>xs ys. Inl TypeError)\<rparr>"
        "Plain (PDict [(''Solana'', PDict [(''DEXTrades'', PList
          [PDict [(''Block'', PDict [(''Time'', PStr ''2024-01-01T00:00:07Z'')]),
                  (''Transaction'', PDict [(''Signature'', PStr ''S2''), (''Index'', PInt 1)]),
                  (''Trade'', PDict [(''Index'', PInt 0)])],
           PStr ''oops''])])])"
        "{}" "PStr ''2024-01-01T00:00:05Z''" "PStr ''2024-01-01T00:00:10Z''"
        query_state_init "[Raises OtherException]"]
  by (simp add: parse_trades_from_result_def parse_body_def parse_data_def parse_trade_def
      py_get_def py_or_def query_state_init_def)

lemma short_page_step:
  assumes "length (parse_trades_from_result B r) < QUERY_LIMIT"
  shows "\<exists>st'. query_loop B keys since till st (Returned r # rest) = (Break, st', rest)
          \<and> offset st' = offset st \<and> trace st' = trace st @ [Execute (offset st)]"
  using assms
  by (simp add: query_loop.simps [of _ _ _ _ _ "Returned r # rest"] fetch_page_Returned
      reconcile_page_def Let_def process_rows_frame)

lemma full_page_step:
  assumes "QUERY_LIMIT \<le> length (parse_trades_from_result B r)"
  shows "\<exists>st1. query_loop B keys since till st (Returned r # script)
                 = query_loop B keys since till st1 script
          \<and> offset st1 = offset st + int QUERY_LIMIT
          \<and> trace st1 = trace st @ [Execute (offset st), Sleep 2]"
proof -
  let ?st1 = "(process_rows B keys since till
                 (st\<lparr>result := Some r, trace := trace st @ [Execute (offset st)]\<rparr>)
                 (parse_trades_from_result B r))
              \<lparr>offset := offset st + int QUERY_LIMIT,
                trace := trace st @ [Execute (offset st), Sleep 2]\<rparr>"
  from assms have "parse_trades_from_result B r \<noteq> []"
    by (auto simp: QUERY_LIMIT_def)
  with assms have "query_loop B keys since till st (Returned r # script)
                     = query_loop B keys since till ?st1 script"
    by (simp add: query_loop.simps [of _ _ _ _ _ "Returned r # script"] fetch_page_Returned
        reconcile_page_def Let_def process_rows_frame)
  then show ?thesis
    by (intro exI [of _ ?st1]) simp
qed

lemma paginate:
  assumes "\<forall>r \<in> set pages. QUERY_LIMIT \<le> length (parse_trades_from_result B r)"
    and "length (parse_trades_from_result B final) < QUERY_LIMIT"
  shows "\<exists>st'. query_loop B keys since till st (map Returned pages @ Returned final # rest)
                 = (Break, st', rest)
          \<and> offset st' = offset st + int (length pages * QUERY_LIMIT)
          \<and> trace st' = trace st
               @ concat (map (\<lambda>i. [Execute (offset st + int (i * QUERY_LIMIT)), Sleep 2])
                          [0..<length pages])
               @ [Execute (offset st + int (length pages * QUERY_LIMIT))]"
  using assms(1)
proof (induction pages arbitrary: st)
  case Nil
  from short_page_step [OF assms(2), of keys since till st rest] show ?case
    by simp
next
  case (Cons p pages)
  from Cons.prems have p: "QUERY_LIMIT \<le> length (parse_trades_from_result B p)"
    and ps: "\<forall>r \<in> set pages. QUERY_LIMIT \<le> length (parse_trades_from_result B r)"
    by simp_all
  from full_page_step [OF p, of keys since till st "map Returned pages @ Returned final # rest"]
  obtain st1 where
    step: "query_loop B keys since till st (Returned p # map Returned pages @ Returned final # rest)
             = query_loop B keys since till st1 (map Returned pages @ Returned final # rest)"
    and off1: "offset st1 = offset st + int QUERY_LIMIT"
    and tr1: "trace st1 = trace st @ [Execute (offset st), Sleep 2]"
    by blast
  from Cons.IH [OF ps, of st1] obtain st' where
    run: "query_loop B keys since till st1 (map Returned pages @ Returned final # rest)
            = (Break, st', rest)"
    and off': "offset st' = offset st1 + int (length pages * QUERY_LIMIT)"
    and tr': "trace st' = trace st1
               @ concat (map (\<lambda>i. [Execute (offset st1 + int (i * QUERY_LIMIT)), Sleep 2])
                          [0..<length pages])
               @ [Execute (offset st1 + int (length pages * QUERY_LIMIT))]"
    by blast
  have shift: "map (\<lambda>i. [Execute (offset st1 + int (i * QUERY_LIMIT)), Sleep 2]) [0..<length pages]
      = map (\<lambda>i. [Execute (offset st + int (Suc i * QUERY_LIMIT)), Sleep 2]) [0..<length pages]"
    by (simp add: off1 algebra_simps)
  have "trace st' = trace st
          @ concat (map (\<lambda>i. [Execute (offset st + int (i * QUERY_LIMIT)), Sleep 2])
                     [0..<length (p # pages)])
          @ [Execute (offset st + int (length (p # pages) * QUERY_LIMIT))]"
    unfolding tr' shift tr1
    by (simp add: map_upt_Suc off1 algebra_simps del: upt_Suc)
  moreover have "offset st' = offset st + int (length (p # pages) * QUERY_LIMIT)"
    by (simp add: off' off1 algebra_simps)
  ultimately show ?case
    using step run by simp
qed

text \<open>
  Claim C6: when the endpoint returns pages of at least \<^verbatim>\<open>QUERY_LIMIT\<close> records and then
  a page of fewer (it may have none), the loop ends by \<^verbatim>\<open>break\<close> after that page and leaves
  the later responses untouched. The calls it made are at the offsets 0, \<^verbatim>\<open>QUERY_LIMIT\<close>,
  twice \<^verbatim>\<open>QUERY_LIMIT\<close> and so on, one per page, with the pause of 2 seconds after each
  full page. The records of a page are those the normalizer gives for it.
\<close>

theorem paginator_stops_at_short_page:
  assumes "\<forall>r \<in> set pages. QUERY_LIMIT \<le> length (parse_trades_from_result B r)"
    and "length (parse_trades_from_result B final) < QUERY_LIMIT"
  shows "\<exists>st. query_loop B keys since till query_state_init
                (map Returned pages @ Returned final # rest) = (Break, st, rest)
          \<and> offset st = int (length pages * QUERY_LIMIT)
          \<and> trace st =
               concat (map (\<lambda>i. [Execute (int (i * QUERY_LIMIT)), Sleep 2]) [0..<length pages])
               @ [Execute (int (length pages * QUERY_LIMIT))]"
  using paginate [OF assms, of keys since till query_state_init rest]
  by (simp add: query_state_init_def)

lemma parse_trades_replicate:
  "parse_trade B t = Some out \<Longrightarrow> parse_trades B (replicate n t) = Some (concat (replicate n out))"
  by (induction n) simp_all

lemma page_of_copies:
  "length (parse_trades_from_result B
     (Plain (PDict [(''Solana'', PDict [(''DEXTrades'', PList (replicate n
        (PDict [(''Block'', PDict [(''Time'', PStr ''2024-01-01T00:00:07Z'')]),
                (''Transaction'', PDict [(''Signature'', PStr ''S2''), (''Index'', PInt 1)]),
                (''Trade'', PDict [(''Index'', PInt 0)])])))])]))) = n"
proof -
  have "parse_trade B
          (PDict [(''Block'', PDict [(''Time'', PStr ''2024-01-01T00:00:07Z'')]),
                  (''Transaction'', PDict [(''Signature'', PStr ''S2''), (''Index'', PInt 1)]),
                  (''Trade'', PDict [(''Index'', PInt 0)])])
        = Some [\<lparr>blocktime = PStr ''2024-01-01T00:00:07Z'', signature = ''S2'',
                  txn_index = PInt 1, trade_index = PInt 0\<rparr>]"
    by (simp add: parse_trade_def py_get_def py_or_def)
  from parse_trades_replicate [OF this, of n] show ?thesis
    by (simp add: parse_trades_from_result_def parse_body_def parse_data_def py_get_def py_or_def
        length_concat)
qed

theorem paginator_stops_at_short_page_witness:
  "\<exists>st. query_loop \<lparr>repr = (\<lambda>v. []), list_lt = (\<lambda>xs ys. Inl TypeError)\<rparr>
          {} (PStr ''2024-01-01T00:00:05Z'') (PStr ''2024-01-01T00:00:10Z'') query_state_init
          [Returned (Plain (PDict [(''Solana'', PDict [(''DEXTrades'', PList (replicate 25000
             (PDict [(''Block'', PDict [(''Time'', PStr ''2024-01-01T00:00:07Z'')]),
                     (''Transaction'', PDict [(''Signature'', PStr ''S2''), (''Index'', PInt 1)]),
                     (''Trade'', PDict [(''Index'', PInt 0)])])))])])),
           Returned (Plain (PDict [(''Solana'', PDict [(''DEXTrades'', PList (replicate 3
             (PDict [(''Block'', PDict [(''Time'', PStr ''2024-01-01T00:00:07Z'')]),
                     (''Transaction'', PDict [(''Signature'', PStr ''S2''), (''Index'', PInt 1)]),
                     (''Trade'', PDict [(''Index'', PInt 0)])])))])])),
           Returned (Plain (PDict []))]
        = (Break, st, [Returned (Plain (PDict []))])
      \<and> offset st = 25000
      \<and> trace st = [Execute 0, Sleep 2, Execute 25000]"
  using paginator_stops_at_short_page
    [where pages = "[Plain (PDict [(''Solana'', PDict [(''DEXTrades'', PList (replicate 25000
             (PDict [(''Block'', PDict [(''Time'', PStr ''2024-01-01T00:00:07Z'')]),
                     (''Transaction'', PDict [(''Signature'', PStr ''S2''), (''Index'', PInt 1)]),
                     (''Trade'', PDict [(''Index'', PInt 0)])])))])])]"
       and final = "Plain (PDict [(''Solana'', PDict [(''DEXTrades'', PList (replicate 3
             (PDict [(''Block'', PDict [(''Time'', PStr ''2024-01-01T00:00:07Z'')]),
                     (''Transaction'', PDict [(''Signature'', PStr ''S2''), (''Index'', PInt 1)]),
                     (''Trade'', PDict [(''Index'', PInt 0)])])))])])"
       and B = "\<lparr>repr = (\<lambda>v. []), list_lt = (\<lambda>xs ys. Inl TypeError)\<rparr>"
       and keys = "{}" and since = "PStr ''2024-01-01T00:00:05Z''"
       and till = "PStr ''2024-01-01T00:00:10Z''" and rest = "[Returned (Plain (PDict []))]"]
  by (simp add: page_of_copies QUERY_LIMIT_def)

lemma retries_then_ok:
  assumes "\<forall>e \<in> set es. caught e" and "a + length es < QUERY_MAX_RETRIES"
  shows "try_attempts off [a..<QUERY_MAX_RETRIES] (map Raises es @ Returned r # rest) ev
           = Broke r
               (ev @ concat (map (\<lambda>n. [Execute off, Sleep (QUERY_RETRY_DELAY * int n)])
                              [Suc a..<Suc (a + length es)])
                   @ [Execute off])
               rest"
  using assms
proof (induction es arbitrary: a ev)
  case Nil
  then show ?case by (simp add: upt_conv_Cons)
next
  case (Cons e es)
  from Cons.prems(2) have a: "a < QUERY_MAX_RETRIES - 1" and a': "a < QUERY_MAX_RETRIES"
    and nxt: "Suc a + length es < QUERY_MAX_RETRIES"
    by simp_all
  from Cons.prems(1) have e: "caught e" and es: "\<forall>e \<in> set es. caught e"
    by simp_all
  have "try_attempts off [a..<QUERY_MAX_RETRIES] (map Raises (e # es) @ Returned r # rest) ev
          = try_attempts off [Suc a..<QUERY_MAX_RETRIES] (map Raises es @ Returned r # rest)
              (ev @ [Execute off, Sleep (QUERY_RETRY_DELAY * (int a + 1))])"
    using a a' e by (simp add: upt_conv_Cons [of a])
  also note Cons.IH [OF es nxt]
  finally show ?case
    by (simp add: upt_conv_Cons [of "Suc a" "Suc (Suc (a + length es))"] del: upt_Suc)
qed

lemma retries_exhausted:
  assumes "\<forall>e \<in> set es. caught e" and "es \<noteq> []" and "a + length es = QUERY_MAX_RETRIES"
  shows "try_attempts off [a..<QUERY_MAX_RETRIES] (map Raises es @ rest) ev
           = Raised (last es)
               (ev @ concat (map (\<lambda>n. [Execute off, Sleep (QUERY_RETRY_DELAY * int n)])
                              [Suc a..<a + length es])
                   @ [Execute off])
               rest"
  using assms
proof (induction es arbitrary: a ev)
  case Nil
  then show ?case by simp
next
  case (Cons e es)
  from Cons.prems(1) have e: "caught e" and es: "\<forall>e \<in> set es. caught e"
    by simp_all
  from Cons.prems(3) have a': "a < QUERY_MAX_RETRIES"
    by simp
  show ?case
  proof (cases "es = []")
    case True
    with Cons.prems(3) have "\<not> a < QUERY_MAX_RETRIES - 1"
      by simp
    with True a' e show ?thesis
      by (simp add: upt_conv_Cons [of a])
  next
    case False
    with Cons.prems(3) have a: "a < QUERY_MAX_RETRIES - 1"
      and nxt: "Suc a + length es = QUERY_MAX_RETRIES"
      by (cases es; simp)+
    have "try_attempts off [a..<QUERY_MAX_RETRIES] (map Raises (e # es) @ rest) ev
            = try_attempts off [Suc a..<QUERY_MAX_RETRIES] (map Raises es @ rest)
                (ev @ [Execute off, Sleep (QUERY_RETRY_DELAY * (int a + 1))])"
      using a a' e by (simp add: upt_conv_Cons [of a])
    also note Cons.IH [OF es False nxt]
    finally show ?thesis
      using False a
      by (simp add: upt_conv_Cons [of "Suc a" "Suc (a + length es)"] del: upt_Suc)
  qed
qed

text \<open>
  Claim C7: when the calls for a page raise caught exceptions fewer than
  \<^verbatim>\<open>QUERY_MAX_RETRIES\<close> times and the next call returns, the page is accepted and the loop
  goes on with it; when \<^verbatim>\<open>QUERY_MAX_RETRIES\<close> calls in a row raise caught exceptions, the
  last one leaves the loop and ends the run. Before the retry number \<open>n\<close> the program
  sleeps \<^verbatim>\<open>QUERY_RETRY_DELAY\<close> times \<open>n\<close> seconds.
\<close>

theorem retry_bound:
  assumes "\<forall>e \<in> set es. caught e"
  shows "(length es < QUERY_MAX_RETRIES \<longrightarrow>
            fetch_page st (map Raises es @ Returned r # rest)
              = Proceed
                  (st\<lparr>result := Some r,
                      trace := trace st
                        @ concat (map (\<lambda>n. [Execute (offset st),
                                             Sleep (QUERY_RETRY_DELAY * int n)])
                                   [1..<Suc (length es)])
                        @ [Execute (offset st)]\<rparr>)
                  rest)
       \<and> (length es = QUERY_MAX_RETRIES \<longrightarrow>
            query_loop B keys since till st (map Raises es @ rest)
              = (Exception (last es),
                 st\<lparr>trace := trace st
                        @ concat (map (\<lambda>n. [Execute (offset st),
                                             Sleep (QUERY_RETRY_DELAY * int n)])
                                   [1..<QUERY_MAX_RETRIES])
                        @ [Execute (offset st)]\<rparr>,
                 rest))"
proof (intro conjI impI)
  assume "length es < QUERY_MAX_RETRIES"
  with retries_then_ok [OF assms, of 0 "offset st" r rest "[]"]
  show "fetch_page st (map Raises es @ Returned r # rest)
              = Proceed
                  (st\<lparr>result := Some r,
                      trace := trace st
                        @ concat (map (\<lambda>n. [Execute (offset st),
                                             Sleep (QUERY_RETRY_DELAY * int n)])
                                   [1..<Suc (length es)])
                        @ [Execute (offset st)]\<rparr>)
                  rest"
    by (simp add: fetch_page_def)
next
  assume len: "length es = QUERY_MAX_RETRIES"
  then have "es \<noteq> []"
    by (auto simp: QUERY_MAX_RETRIES_def)
  with retries_exhausted [OF assms, of 0 "offset st" rest "[]"] len
  have "fetch_page st (map Raises es @ rest)
          = Ended (Exception (last es))
              (st\<lparr>trace := trace st
                        @ concat (map (\<lambda>n. [Execute (offset st),
                                             Sleep (QUERY_RETRY_DELAY * int n)])
                                   [1..<QUERY_MAX_RETRIES])
                        @ [Execute (offset st)]\<rparr>)
              rest"
    by (simp add: fetch_page_def)
  then show "query_loop B keys since till st (map Raises es @ rest)
              = (Exception (last es),
                 st\<lparr>trace := trace st
                        @ concat (map (\<lambda>n. [Execute (offset st),
                                             Sleep (QUERY_RETRY_DELAY * int n)])
                                   [1..<QUERY_MAX_RETRIES])
                        @ [Execute (offset st)]\<rparr>,
                 rest)"
    by (simp add: query_loop.simps [of _ _ _ _ _ "map Raises es @ rest"])
qed

theorem retry_bound_witness:
  "fetch_page query_state_init
     [Raises ConnectionError, Raises ChunkedEncodingError, Raises ProtocolError,
      Returned (Plain (PDict [])), Raises OtherException]
     = Proceed
         (query_state_init
            \<lparr>result := Some (Plain (PDict [])),
             trace := [Execute 0, Sleep 5, Execute 0, Sleep 10, Execute 0, Sleep 15, Execute 0]\<rparr>)
         [Raises OtherException]
   \<and> query_loop \<lparr>repr = (\<lambda>v. []), list_lt = (\<lambda>xs ys. Inl TypeError)\<rparr>
       {} (PStr ''2024-01-01T00:00:05Z'') (PStr ''2024-01-01T00:00:10Z'') query_state_init
       [Raises ConnectionError, Raises ConnectionError, Raises ProtocolError,
        Raises ChunkedEncodingError, Returned (Plain (PDict []))]
     = (Exception ChunkedEncodingError,
        query_state_init
          \<lparr>trace := [Execute 0, Sleep 5, Execute 0, Sleep 10, Execute 0, Sleep 15, Execute 0]\<rparr>,
        [Returned (Plain (PDict []))])"
  using retry_bound
    [where es = "[ConnectionError, ChunkedEncodingError, ProtocolError]"
       and st = query_state_init and r = "Plain (PDict [])" and rest = "[Raises OtherException]"]
    retry_bound
    [where es = "[ConnectionError, ConnectionError, ProtocolError, ChunkedEncodingError]"
       and st = query_state_init
       and B = "\<lparr>repr = (\<lambda>v. []), list_lt = (\<lambda>xs ys. Inl TypeError)\<rparr>"
       and keys = "{}" and since = "PStr ''2024-01-01T00:00:05Z''"
       and till = "PStr ''2024-01-01T00:00:10Z''" and rest = "[Returned (Plain (PDict []))]"]
  by (simp add: caught_def QUERY_MAX_RETRIES_def QUERY_RETRY_DELAY_def query_state_init_def
      upt_rec)

section \<open>Properties of the live leg\<close>

text \<open>
  What the specification says of the state of the stream: \<^verbatim>\<open>min_time\<close> and \<^verbatim>\<open>max_time\<close> are
  the least and the greatest of the blocktimes written so far in the order of strings
  (both \<^verbatim>\<open>None\<close> before the first one), and \<^verbatim>\<open>count\<close> is their number.
\<close>

definition tracks :: "string list \<Rightarrow> StreamState \<Rightarrow> bool" where
  "tracks seen st =
     (min_time st = (if seen = [] then PNone else PStr (Min (set seen)))
      \<and> max_time st = (if seen = [] then PNone else PStr (Max (set seen)))
      \<and> count st = int (length seen))"

lemma write_trade_next:
  assumes "writer (fst w)" and "min_time (fst w) = PStr m" and "max_time (fst w) = PStr M"
  shows "\<exists>st csv. write_trade B (PStr b) sg ti tri w = Inr (st, csv)
           \<and> writer st \<and> min_time st = PStr (min b m) \<and> max_time st = PStr (max b M)
           \<and> count st = count (fst w) + 1"
  using assms
  by (auto simp: write_trade_def Let_def py_lt_def py_gt_def min_def max_def)

lemma write_trade_string:
  assumes "writer (fst w)" and "tracks seen (fst w)"
  shows "\<exists>st csv. write_trade B (PStr b) sg ti tri w = Inr (st, csv)
           \<and> writer st \<and> tracks (seen @ [b]) st"
proof (cases "seen = []")
  case True
  with assms show ?thesis
    by (simp add: write_trade_def tracks_def Let_def)
next
  case False
  define m where "m = Min (set seen)"
  define M where "M = Max (set seen)"
  from False have mins: "Min (set (seen @ [b])) = min b m"
    and maxs: "Max (set (seen @ [b])) = max b M"
    by (simp_all add: m_def M_def)
  from False assms(2) have "min_time (fst w) = PStr m" and "max_time (fst w) = PStr M"
    and c: "count (fst w) = int (length seen)"
    by (simp_all add: tracks_def m_def M_def)
  from write_trade_next [OF assms(1) this(1,2), of B b sg ti tri]
  obtain st csv where "write_trade B (PStr b) sg ti tri w = Inr (st, csv)"
    and "writer st" and "min_time st = PStr (min b m)" and "max_time st = PStr (max b M)"
    and "count st = count (fst w) + 1"
    by blast
  with c have "write_trade B (PStr b) sg ti tri w = Inr (st, csv) \<and> writer st
      \<and> tracks (seen @ [b]) st"
    unfolding tracks_def mins maxs by simp
  then show ?thesis
    by blast
qed

lemma write_rows_tracks:
  assumes "writer (fst w)" and "tracks seen (fst w)" and "map blocktime rows = map PStr bts"
  shows "\<exists>st csv. write_rows B rows w = Inr (st, csv) \<and> writer st \<and> tracks (seen @ bts) st"
  using assms
proof (induction rows arbitrary: w seen bts)
  case Nil
  then show ?case by (cases w) simp
next
  case (Cons row rows)
  from Cons.prems(3) obtain b bs where bts: "bts = b # bs"
    and b: "blocktime row = PStr b" and bs: "map blocktime rows = map PStr bs"
    by (cases bts) auto
  from write_trade_string [OF Cons.prems(1,2), of B b]
  obtain st csv where
    step: "write_trade B (PStr b) (signature row) (py_or (txn_index row) (PInt 0))
             (py_or (trade_index row) (PInt 0)) w = Inr (st, csv)"
    and w: "writer st" and t: "tracks (seen @ [b]) st"
    by blast
  from Cons.IH [of "(st, csv)" "seen @ [b]" bs] w t bs
  obtain st' csv' where "write_rows B rows (st, csv) = Inr (st', csv')"
    and "writer st'" and "tracks ((seen @ [b]) @ bs) st'"
    by auto
  with step b bts show ?case
    by simp
qed

lemma write_rows_append:
  "write_rows B (xs @ ys) w =
     (case write_rows B xs w of Inl e \<Rightarrow> Inl e | Inr w' \<Rightarrow> write_rows B ys w')"
  by (induction xs arbitrary: w) (simp_all split: sum.splits)

lemma collect_is_write_rows:
  "subscribe_and_collect B delivered w
     = write_rows B (concat (map (parse_trades_from_result B) delivered)) w"
  by (induction delivered arbitrary: w) (simp_all add: write_rows_append split: sum.splits)

text \<open>
  Claim C9: when the blocktimes of the records that the normalizer gives for the delivered
  results are strings, the live leg raises nothing, and its state tracks these strings:
  \<^verbatim>\<open>min_time\<close> is their least and \<^verbatim>\<open>max_time\<close> their greatest in the order of strings, and
  \<^verbatim>\<open>count\<close> is their number. The same holds after each record, that is after the first
  \<open>n\<close> records for every \<open>n\<close>.
\<close>

theorem live_leg_tracks_min_max_count:
  assumes "map blocktime (concat (map (parse_trades_from_result B) delivered)) = map PStr bts"
  shows "(\<exists>st csv. subscribe_and_collect B delivered (open_csv (StreamState_init, []))
                      = Inr (st, csv) \<and> tracks bts st)
       \<and> (\<forall>n. \<exists>st csv.
              write_rows B (take n (concat (map (parse_trades_from_result B) delivered)))
                (open_csv (StreamState_init, [])) = Inr (st, csv)
              \<and> tracks (take n bts) st)"
proof -
  let ?w = "open_csv (StreamState_init, [])"
  have w: "writer (fst ?w)" and t: "tracks [] (fst ?w)"
    by (simp_all add: open_csv_def StreamState_init_def tracks_def)
  have "\<exists>st csv.
          write_rows B (take n (concat (map (parse_trades_from_result B) delivered))) ?w
            = Inr (st, csv) \<and> tracks (take n bts) st" for n
  proof -
    from assms
    have "map blocktime (take n (concat (map (parse_trades_from_result B) delivered)))
            = map PStr (take n bts)"
      by (simp add: take_map [symmetric])
    from write_rows_tracks [OF w t this, of B] show ?thesis
      by auto
  qed
  moreover from write_rows_tracks [OF w t assms, of B]
  have "\<exists>st csv. subscribe_and_collect B delivered ?w = Inr (st, csv) \<and> tracks bts st"
    by (auto simp: collect_is_write_rows)
  ultimately show ?thesis
    by blast
qed

theorem live_leg_tracks_min_max_count_witness:
  "subscribe_and_collect \<lparr>repr = (\<lambda>v. []), list_lt = (\<lambda>xs ys. Inl TypeError)\<rparr>
     [ExecutionResult (PDict [(''Solana'', PDict [(''DEXTrades'', PList
        [PDict [(''Block'', PDict [(''Time'', PStr ''2024-01-01T00:00:07Z'')]),
                (''Transaction'', PDict [(''Signature'', PStr ''S2''), (''Index'', PInt 1)]),
                (''Trade'', PDict [(''Index'', PInt 0)])],
         PDict [(''Block'', PDict [(''Time'', PStr ''2024-01-01T00:00:05Z'')]),
                (''Transaction'', PDict [(''Signature'', PStr ''S1''), (''Index'', PInt 0)]),
                (''Trade'', PDict [(''Index'', PInt 0)])]])])]),
      ExecutionResult (PDict [(''Solana'', PDict [(''DEXTrades'', PList
        [PDict [(''Block'', PDict [(''Time'', PStr ''2024-01-01T00:00:10Z'')]),
                (''Transaction'', PDict [(''Signature'', PStr ''S3''), (''Index'', PInt 2)]),
                (''Trade'', PDict [(''Index'', PInt 1)])]])])])]
     (open_csv (StreamState_init, []))
   = Inr (\<lparr>min_time = PStr ''2024-01-01T00:00:05Z'', max_time = PStr ''2024-01-01T00:00:10Z'',
            count = 3, writer = True\<rparr>,
          [(''2024-01-01T00:00:07Z'', ''S2'', ''1'', ''0''),
           (''2024-01-01T00:00:05Z'', ''S1'', ''0'', ''0''),
           (''2024-01-01T00:00:10Z'', ''S3'', ''2'', ''1'')])
   \<and> tracks [''2024-01-01T00:00:07Z'', ''2024-01-01T00:00:05Z'', ''2024-01-01T00:00:10Z'']
       \<lparr>min_time = PStr ''2024-01-01T00:00:05Z'', max_time = PStr ''2024-01-01T00:00:10Z'',
            count = 3, writer = True\<rparr>"
  using live_leg_tracks_min_max_count
    [where B = "\<lparr>repr = (\<lambda>v. []), list_lt = (\<lambda>xs ys. Inl TypeError)\<rparr>"
       and delivered = "[ExecutionResult (PDict [(''Solana'', PDict [(''DEXTrades'', PList
        [PDict [(''Block'', PDict [(''Time'', PStr ''2024-01-01T00:00:07Z'')]),
                (''Transaction'', PDict [(''Signature'', PStr ''S2''), (''Index'', PInt 1)]),
                (''Trade'', PDict [(''Index'', PInt 0)])],
         PDict [(''Block'', PDict [(''Time'', PStr ''2024-01-01T00:00:05Z'')]),
                (''Transaction'', PDict [(''Signature'', PStr ''S1''), (''Index'', PInt 0)]),
                (''Trade'', PDict [(''Index'', PInt 0)])]])])]),
      ExecutionResult (PDict [(''Solana'', PDict [(''DEXTrades'', PList
        [PDict [(''Block'', PDict [(''Time'', PStr ''2024-01-01T00:00:10Z'')]),
                (''Transaction'', PDict [(''Signature'', PStr ''S3''), (''Index'', PInt 2)]),
                (''Trade'', PDict [(''Index'', PInt 1)])]])])])]"
       and bts = "[''2024-01-01T00:00:07Z'', ''2024-01-01T00:00:05Z'', ''2024-01-01T00:00:10Z'']"]
  by (simp add: parse_trades_from_result_def parse_body_def parse_data_def parse_trade_def
      py_get_def py_or_def open_csv_def StreamState_init_def write_trade_def py_lt_def py_gt_def
      csv_field_def str_int_def tracks_def)

section \<open>Properties of the final statistics\<close>

text \<open>
  Claim C8: the final statistics never raise ZeroDivisionError. The share is
  \<^verbatim>\<open>mismatch_count / total_query_count * 100\<close> when \<^verbatim>\<open>total_query_count\<close> is positive, and
  it is not computed otherwise.
\<close>

theorem missing_share_guarded:
  "\<exists>s. final_stats state since till st = Inr s
       \<and> stats_pct s =
           (if total_query_count st > 0
            then Some (of_int (mismatch_count st) / of_int (total_query_count st) * 100)
            else None)"
  by (simp add: final_stats_def py_truediv_def)

theorem missing_share_guarded_witness:
  "final_stats StreamState_init PNone PNone query_state_init
     = Inr \<lparr>stats_since = PNone, stats_till = PNone, stats_stream_count = 0,
            stats_total_query_count = 0, stats_boundary_excluded_count = 0,
            stats_mismatch_count = 0, stats_pct = None\<rparr>
   \<and> (\<exists>s. final_stats StreamState_init PNone PNone
              (query_state_init\<lparr>total_query_count := 4, mismatch_count := 1\<rparr>) = Inr s
          \<and> stats_pct s = Some 25)"
  using missing_share_guarded [of StreamState_init PNone PNone query_state_init]
    missing_share_guarded
      [of StreamState_init PNone PNone "query_state_init\<lparr>total_query_count := 4, mismatch_count := 1\<rparr>"]
  by (simp add: final_stats_def py_truediv_def query_state_init_def StreamState_init_def)

section \<open>The two legs together\<close>

text \<open>
  The text that the live leg writes for an index and the text in the key of the query leg
  are the same when the index counts as true or is the integer 0.
\<close>

lemma present_index_texts_agree:
  "py_truthy v \<or> v = PInt 0 \<Longrightarrow> csv_field B (py_or v (PInt 0)) = py_str B v"
  by (auto simp: csv_field_def py_or_def)

text \<open>
  Claim C1 asks that a record of the query with the identity key of a record of the stream
  be matched, also when an index was absent upstream. The live leg writes 0 for an absent
  index (\<^verbatim>\<open>or 0\<close>, lines 155 and 156) and the key of its row has the text \<^verbatim>\<open>0\<close>; the query
  leg keeps the empty string of the normalizer in its key (line 286). Below the stream
  delivers three trades and the query returns the same three; the second has null
  indices. It is in the stream file, and it is reported as a mismatch.
\<close>

theorem absent_index_reported_as_missed:
  "\<exists>s st.
     main B
       [ExecutionResult (PDict [(''Solana'', PDict [(''DEXTrades'', PList
          [PDict [(''Block'', PDict [(''Time'', PStr ''2024-01-01T00:00:05Z'')]),
                  (''Transaction'', PDict [(''Signature'', PStr ''A''), (''Index'', PInt 1)]),
                  (''Trade'', PDict [(''Index'', PInt 0)])],
           PDict [(''Block'', PDict [(''Time'', PStr ''2024-01-01T00:00:07Z'')]),
                  (''Transaction'', PDict [(''Signature'', PStr ''B''), (''Index'', PNone)]),
                  (''Trade'', PDict [(''Index'', PNone)])],
           PDict [(''Block'', PDict [(''Time'', PStr ''2024-01-01T00:00:09Z'')]),
                  (''Transaction'', PDict [(''Signature'', PStr ''C''), (''Index'', PInt 3)]),
                  (''Trade'', PDict [(''Index'', PInt 0)])]])])])]
       [Returned (Plain (PDict [(''Solana'', PDict [(''DEXTrades'', PList
          [PDict [(''Block'', PDict [(''Time'', PStr ''2024-01-01T00:00:05Z'')]),
                  (''Transaction'', PDict [(''Signature'', PStr ''A''), (''Index'', PInt 1)]),
                  (''Trade'', PDict [(''Index'', PInt 0)])],
           PDict [(''Block'', PDict [(''Time'', PStr ''2024-01-01T00:00:07Z'')]),
                  (''Transaction'', PDict [(''Signature'', PStr ''B''), (''Index'', PNone)]),
                  (''Trade'', PDict [(''Index'', PNone)])],
           PDict [(''Block'', PDict [(''Time'', PStr ''2024-01-01T00:00:09Z'')]),
                  (''Transaction'', PDict [(''Signature'', PStr ''C''), (''Index'', PInt 3)]),
                  (''Trade'', PDict [(''Index'', PInt 0)])]])])]))]
     = Compared (Reported s st [])
     \<and> stats_stream_count s = 3 \<and> stats_total_query_count s = 3
     \<and> stats_boundary_excluded_count s = 0 \<and> stats_mismatch_count s = 1
     \<and> mismatch_csv st = [(''2024-01-01T00:00:07Z'', ''B'', '''', '''')]"
proof -
  let ?trades = "[PDict [(''Block'', PDict [(''Time'', PStr ''2024-01-01T00:00:05Z'')]),
                  (''Transaction'', PDict [(''Signature'', PStr ''A''), (''Index'', PInt 1)]),
                  (''Trade'', PDict [(''Index'', PInt 0)])],
           PDict [(''Block'', PDict [(''Time'', PStr ''2024-01-01T00:00:07Z'')]),
                  (''Transaction'', PDict [(''Signature'', PStr ''B''), (''Index'', PNone)]),
                  (''Trade'', PDict [(''Index'', PNone)])],
           PDict [(''Block'', PDict [(''Time'', PStr ''2024-01-01T00:00:09Z'')]),
                  (''Transaction'', PDict [(''Signature'', PStr ''C''), (''Index'', PInt 3)]),
                  (''Trade'', PDict [(''Index'', PInt 0)])]]"
  let ?page = "PDict [(''Solana'', PDict [(''DEXTrades'', PList ?trades)])]"
  let ?rows = "[\<lparr>blocktime = PStr ''2024-01-01T00:00:05Z'', signature = ''A'',
                  txn_index = PInt 1, trade_index = PInt 0\<rparr>,
                \<lparr>blocktime = PStr ''2024-01-01T00:00:07Z'', signature = ''B'',
                  txn_index = PStr '''', trade_index = PStr ''''\<rparr>,
                \<lparr>blocktime = PStr ''2024-01-01T00:00:09Z'', signature = ''C'',
                  txn_index = PInt 3, trade_index = PInt 0\<rparr>]"
  let ?state = "\<lparr>min_time = PStr ''2024-01-01T00:00:05Z'',
                  max_time = PStr ''2024-01-01T00:00:09Z'', count = 3, writer = False\<rparr>"
  let ?csv = "[(''2024-01-01T00:00:05Z'', ''A'', ''1'', ''0''),
               (''2024-01-01T00:00:07Z'', ''B'', ''0'', ''0''),
               (''2024-01-01T00:00:09Z'', ''C'', ''3'', ''0'')]"
  have trades: "parse_trades B ?trades = Some ?rows"
    by (simp add: parse_trade_def py_get_def py_or_def)
  have stream_rows: "parse_trades_from_result B (ExecutionResult ?page) = ?rows"
    using trades
    by (simp add: parse_trades_from_result_def parse_body_def parse_data_def py_get_def
        del: parse_trades.simps)
  have query_rows: "parse_trades_from_result B (Plain ?page) = ?rows"
    using trades
    by (simp add: parse_trades_from_result_def parse_body_def parse_data_def py_get_def py_or_def
        del: parse_trades.simps)
  have stream: "run_stream B [ExecutionResult ?page] = Inr (?state, ?csv)"
    unfolding run_stream_def subscribe_and_collect.simps stream_rows
    by (simp add: open_csv_def close_def StreamState_init_def write_trade_def py_lt_def py_gt_def
        py_or_def csv_field_def str_int_def)
  have keys: "stream_keys ?csv = {(''A'', ''1'', ''0''), (''B'', ''0'', ''0''), (''C'', ''3'', ''0'')}"
    by (simp add: stream_keys_def stream_key_def)
  define final where "final = query_state_init
          \<lparr>mismatch_count := 1, total_query_count := 3,
           first_result_time := PStr ''2024-01-01T00:00:05Z'',
           last_result_time := PStr ''2024-01-01T00:00:09Z'',
           result := Some (Plain ?page),
           query_csv := [(''2024-01-01T00:00:05Z'', ''A'', ''1'', ''0''),
                         (''2024-01-01T00:00:07Z'', ''B'', '''', ''''),
                         (''2024-01-01T00:00:09Z'', ''C'', ''3'', ''0'')],
           mismatch_csv := [(''2024-01-01T00:00:07Z'', ''B'', '''', '''')],
           trace := [Execute 0]\<rparr>"
  have rows: "process_rows B (stream_keys ?csv) (PStr ''2024-01-01T00:00:05Z'')
                (PStr ''2024-01-01T00:00:09Z'')
                (query_state_init\<lparr>result := Some (Plain ?page), trace := [Execute 0]\<rparr>) ?rows
      = final"
    unfolding keys final_def
    by (simp add: process_rows_def process_row_def Let_def query_key_def row_dict_def
        csv_field_def str_int_def at_time_boundary_def to_sec_def strip_def is_space_def
        query_state_init_def)
  have init: "offset query_state_init = 0" "trace query_state_init = []"
    by (simp_all add: query_state_init_def)
  have loop: "query_loop B (stream_keys ?csv) (PStr ''2024-01-01T00:00:05Z'')
                (PStr ''2024-01-01T00:00:09Z'') query_state_init [Returned (Plain ?page)]
      = (Break, final, [])"
    unfolding query_loop.simps [of _ _ _ _ _ "[Returned (Plain ?page)]"] fetch_page_Returned
      fetched.case reconcile_page_def
    by (simp add: init query_rows rows QUERY_LIMIT_def del: parse_trades.simps)
  have stats: "final_stats ?state (PStr ''2024-01-01T00:00:05Z'') (PStr ''2024-01-01T00:00:09Z'')
                 final
      = Inr \<lparr>stats_since = PStr ''2024-01-01T00:00:05Z'',
             stats_till = PStr ''2024-01-01T00:00:09Z'', stats_stream_count = 3,
             stats_total_query_count = 3, stats_boundary_excluded_count = 0,
             stats_mismatch_count = 1, stats_pct = Some (100 / 3)\<rparr>"
    by (simp add: final_stats_def py_truediv_def final_def query_state_init_def)
  have "main B [ExecutionResult ?page] [Returned (Plain ?page)]
      = Compared (Reported
          \<lparr>stats_since = PStr ''2024-01-01T00:00:05Z'',
             stats_till = PStr ''2024-01-01T00:00:09Z'', stats_stream_count = 3,
             stats_total_query_count = 3, stats_boundary_excluded_count = 0,
             stats_mismatch_count = 1, stats_pct = Some (100 / 3)\<rparr> final [])"
    unfolding main_def stream
    by (simp add: run_query_and_compare_def Let_def loop stats)
  moreover have "mismatch_csv final = [(''2024-01-01T00:00:07Z'', ''B'', '''', '''')]"
    by (simp add: final_def)
  ultimately show ?thesis
    by simp
qed

end
